theory Spec2Isabelle
  imports Complex_Main
begin

section \<open>Python values used by the experiment scripts\<close>

text \<open>
  Exceptions raised by the modelled functions, as values. \<open>ValueError\<close> carries the
  message the source formats.
\<close>

datatype error =
    ValueError string
  | UnboundLocalError string
  | AttributeError string
  | IndexError
  | StopIteration
  | ZeroDivisionError

subsection \<open>Formatting an integer inside an f-string\<close>

text \<open>
  \<^verbatim>\<open>f"{n}"\<close> on a Python \<open>int\<close> is \<^verbatim>\<open>str(n)\<close>: an optional minus sign followed
  by the decimal digits, most significant first.
\<close>

definition digit_char :: "nat \<Rightarrow> char" where
  "digit_char d = char_of (48 + d)"

fun str_nat :: "nat \<Rightarrow> string" where
  "str_nat n =
     (if n < 10 then [digit_char n] else str_nat (n div 10) @ [digit_char (n mod 10)])"

declare str_nat.simps [simp del]

definition str_int :: "int \<Rightarrow> string" where
  "str_int i = (if i < 0 then CHR ''-'' # str_nat (nat (- i)) else str_nat (nat i))"

section \<open>curvature/main.py: enumeration of the sweeps\<close>

text \<open>
  The module \<^verbatim>\<open>default_config\<close> is not part of the sources at hand; \<open>main\<close> reads
  from it the list of dataset names and, per parameter, the list of values to sweep.
  It is a parameter of the model. \<open>'f\<close> stands for the type of the float-valued
  settings and \<open>'a\<close> for the arena dimensions; nothing is computed with them, they
  are only passed on and, for two of them, formatted into the sweep name.
\<close>

record ('f, 'a) default_config =
  dataset_name :: "string list"
  expt_id :: "string list"
  timestep_microsec :: "'f list"
  smooth :: "bool list"
  select_gain_1 :: "bool list"
  n_times :: "int list"
  embedding_dim :: "int list"
  geodesic_distortion_amp :: "'f list"
  noise_var :: "'f list"
  grid_scale :: "'f list"
  arena_dims :: "'a list"
  n_cells :: "int list"
  grid_orientation_mean :: "'f list"
  grid_orientation_std :: "'f list"
  field_width :: "'f list"
  resolution :: "int list"

text \<open>\<^verbatim>\<open>itertools.product\<close>: the rightmost argument varies fastest.\<close>

definition product4 :: "'p list \<Rightarrow> 'q list \<Rightarrow> 'r list \<Rightarrow> 's list \<Rightarrow> ('p \<times> 'q \<times> 'r \<times> 's) list" where
  "product4 ps qs rs ss = [(p, q, r, s). p \<leftarrow> ps, q \<leftarrow> qs, r \<leftarrow> rs, s \<leftarrow> ss]"

definition product7 ::
  "'p list \<Rightarrow> 'q list \<Rightarrow> 'r list \<Rightarrow> 's list \<Rightarrow> 't list \<Rightarrow> 'u list \<Rightarrow> 'v list
     \<Rightarrow> ('p \<times> 'q \<times> 'r \<times> 's \<times> 't \<times> 'u \<times> 'v) list" where
  "product7 ps qs rs ss ts us vs =
     [(p, q, r, s, t, u, v). p \<leftarrow> ps, q \<leftarrow> qs, r \<leftarrow> rs, s \<leftarrow> ss, t \<leftarrow> ts, u \<leftarrow> us, v \<leftarrow> vs]"

text \<open>
  The keyword arguments of one call of \<open>main_sweep\<close>, beside \<open>sweep_name\<close> and
  \<open>dataset_name\<close>; the arguments a branch does not pass keep their default \<open>None\<close>.
\<close>

datatype ('f, 'a) sweep_args =
    ExperimentalArgs string 'f bool bool
  | SyntheticArgs int int 'f 'f
  | GridCellsArgs 'f 'a int 'f 'f 'f int
  | NoArgs

record ('f, 'a) sweep_call =
  call_sweep_name :: string
  call_dataset_name :: string
  call_args :: "('f, 'a) sweep_args"

text \<open>
  The three f-strings that build \<open>sweep_name\<close>. \<open>fmt\<close> is Python's formatting of
  a float inside an f-string.
\<close>

definition sweep_name_experimental :: "string \<Rightarrow> string \<times> 'f \<times> bool \<times> bool \<Rightarrow> string" where
  "sweep_name_experimental dn t =
     (case t of (eid, ts, sm, gain) \<Rightarrow>
        (let sweep_name = dn @ ''_'' @ eid
         in if gain then sweep_name @ ''_gain_1'' else sweep_name @ ''_other_gain''))"

definition sweep_name_synthetic ::
  "('f \<Rightarrow> string) \<Rightarrow> string \<Rightarrow> int \<times> int \<times> 'f \<times> 'f \<Rightarrow> string" where
  "sweep_name_synthetic fmt dn t =
     (case t of (nt, ed, amp, nv) \<Rightarrow>
        (let sweep_name = dn @ ''_noise_var_'' @ fmt nv
         in sweep_name @ ''_embedding_dim_'' @ str_int ed))"

definition sweep_name_grid_cells ::
  "('f \<Rightarrow> string) \<Rightarrow> string \<Rightarrow> 'f \<times> 'a \<times> int \<times> 'f \<times> 'f \<times> 'f \<times> int \<Rightarrow> string" where
  "sweep_name_grid_cells fmt dn t =
     (case t of (gs, ad, nc, gom, gos, fw, res) \<Rightarrow>
        (let sweep_name = dn @ ''_orientation_std_'' @ fmt gos
         in sweep_name @ ''_ncells_'' @ str_int nc))"

text \<open>
  The guard of the synthetic branch, and the error it raises. The statement after the
  \<^verbatim>\<open>raise\<close> is never reached.
\<close>

definition embedding_too_small :: "string \<Rightarrow> int \<Rightarrow> bool" where
  "embedding_too_small dn ed \<longleftrightarrow> dn \<in> set [''s2_synthetic'', ''t2_synthetic''] \<and> ed \<le> 2"

definition embedding_error :: "int \<Rightarrow> error" where
  "embedding_error ed =
     ValueError (''Manifold cannot be embedded in '' @ str_int ed @ '' dimensions'')"

text \<open>
  The effect of \<open>main\<close> is the sequence of \<open>main_sweep\<close> calls it makes; the model
  threads that sequence and returns it with the exception that ended the run, if any.
\<close>

fun synthetic_loop ::
  "('f \<Rightarrow> string) \<Rightarrow> string \<Rightarrow> (int \<times> int \<times> 'f \<times> 'f) list \<Rightarrow> ('f, 'a) sweep_call list
     \<Rightarrow> ('f, 'a) sweep_call list \<times> error option" where
  "synthetic_loop fmt dn [] launched = (launched, None)"
| "synthetic_loop fmt dn ((nt, ed, amp, nv) # ts) launched =
     (if embedding_too_small dn ed then (launched, Some (embedding_error ed))
      else synthetic_loop fmt dn ts
             (launched @ [\<lparr>call_sweep_name = sweep_name_synthetic fmt dn (nt, ed, amp, nv),
                           call_dataset_name = dn,
                           call_args = SyntheticArgs nt ed amp nv\<rparr>]))"

definition experimental_calls ::
  "string \<Rightarrow> (string \<times> 'f \<times> bool \<times> bool) list \<Rightarrow> ('f, 'a) sweep_call list" where
  "experimental_calls dn ts =
     map (\<lambda>(eid, tm, sm, gain).
            \<lparr>call_sweep_name = sweep_name_experimental dn (eid, tm, sm, gain),
             call_dataset_name = dn,
             call_args = ExperimentalArgs eid tm sm gain\<rparr>) ts"

definition grid_cells_calls ::
  "('f \<Rightarrow> string) \<Rightarrow> string \<Rightarrow> ('f \<times> 'a \<times> int \<times> 'f \<times> 'f \<times> 'f \<times> int) list
     \<Rightarrow> ('f, 'a) sweep_call list" where
  "grid_cells_calls fmt dn ts =
     map (\<lambda>(gs, ad, nc, gom, gos, fw, res).
            \<lparr>call_sweep_name = sweep_name_grid_cells fmt dn (gs, ad, nc, gom, gos, fw, res),
             call_dataset_name = dn,
             call_args = GridCellsArgs gs ad nc gom gos fw res\<rparr>) ts"

fun main_loop ::
  "('f \<Rightarrow> string) \<Rightarrow> ('f, 'a) default_config \<Rightarrow> string list \<Rightarrow> ('f, 'a) sweep_call list
     \<Rightarrow> ('f, 'a) sweep_call list \<times> error option" where
  "main_loop fmt cfg [] launched = (launched, None)"
| "main_loop fmt cfg (dn # dns) launched =
     (if dn = ''experimental'' then
        main_loop fmt cfg dns
          (launched @ experimental_calls dn
             (product4 (expt_id cfg) (timestep_microsec cfg) (smooth cfg) (select_gain_1 cfg)))
      else if dn \<in> set [''s1_synthetic'', ''s2_synthetic'', ''t2_synthetic''] then
        (case synthetic_loop fmt dn
                (product4 (n_times cfg) (embedding_dim cfg) (geodesic_distortion_amp cfg)
                   (noise_var cfg)) launched of
           (launched', Some e) \<Rightarrow> (launched', Some e)
         | (launched', None) \<Rightarrow> main_loop fmt cfg dns launched')
      else if dn = ''grid_cells'' then
        main_loop fmt cfg dns
          (launched @ grid_cells_calls fmt dn
             (product7 (grid_scale cfg) (arena_dims cfg) (n_cells cfg) (grid_orientation_mean cfg)
                (grid_orientation_std cfg) (field_width cfg) (resolution cfg)))
      else if dn = ''three_place_cells_synthetic'' then
        main_loop fmt cfg dns
          (launched @ [\<lparr>call_sweep_name = dn, call_dataset_name = dn, call_args = NoArgs\<rparr>])
      else main_loop fmt cfg dns launched)"

definition main ::
  "('f \<Rightarrow> string) \<Rightarrow> ('f, 'a) default_config \<Rightarrow> ('f, 'a) sweep_call list \<times> error option" where
  "main fmt cfg = main_loop fmt cfg (dataset_name cfg) []"

text \<open>
  For comparison with \<open>main\<close>: the calls that the loops enumerate for one dataset name
  and for all of them, in order, when nothing stops the enumeration; a call is accepted
  when the guard of the synthetic branch lets it through.
\<close>

definition synthetic_calls ::
  "('f \<Rightarrow> string) \<Rightarrow> string \<Rightarrow> (int \<times> int \<times> 'f \<times> 'f) list \<Rightarrow> ('f, 'a) sweep_call list" where
  "synthetic_calls fmt dn ts =
     map (\<lambda>(nt, ed, amp, nv).
            \<lparr>call_sweep_name = sweep_name_synthetic fmt dn (nt, ed, amp, nv),
             call_dataset_name = dn,
             call_args = SyntheticArgs nt ed amp nv\<rparr>) ts"

definition enumerated_calls ::
  "('f \<Rightarrow> string) \<Rightarrow> ('f, 'a) default_config \<Rightarrow> string \<Rightarrow> ('f, 'a) sweep_call list" where
  "enumerated_calls fmt cfg dn =
     (if dn = ''experimental'' then
        experimental_calls dn
          (product4 (expt_id cfg) (timestep_microsec cfg) (smooth cfg) (select_gain_1 cfg))
      else if dn \<in> set [''s1_synthetic'', ''s2_synthetic'', ''t2_synthetic''] then
        synthetic_calls fmt dn
          (product4 (n_times cfg) (embedding_dim cfg) (geodesic_distortion_amp cfg) (noise_var cfg))
      else if dn = ''grid_cells'' then
        grid_cells_calls fmt dn
          (product7 (grid_scale cfg) (arena_dims cfg) (n_cells cfg) (grid_orientation_mean cfg)
             (grid_orientation_std cfg) (field_width cfg) (resolution cfg))
      else if dn = ''three_place_cells_synthetic'' then
        [\<lparr>call_sweep_name = dn, call_dataset_name = dn, call_args = NoArgs\<rparr>]
      else [])"

definition all_enumerated_calls ::
  "('f \<Rightarrow> string) \<Rightarrow> ('f, 'a) default_config \<Rightarrow> ('f, 'a) sweep_call list" where
  "all_enumerated_calls fmt cfg = concat (map (enumerated_calls fmt cfg) (dataset_name cfg))"

definition call_accepted :: "('f, 'a) sweep_call \<Rightarrow> bool" where
  "call_accepted c =
     (case call_args c of
        SyntheticArgs nt ed amp nv \<Rightarrow> \<not> embedding_too_small (call_dataset_name c) ed
      | _ \<Rightarrow> True)"

definition first_rejection :: "('f, 'a) sweep_call list \<Rightarrow> error option" where
  "first_rejection cs =
     (case dropWhile call_accepted cs of
        [] \<Rightarrow> None
      | c # _ \<Rightarrow>
          (case call_args c of
             SyntheticArgs nt ed amp nv \<Rightarrow> Some (embedding_error ed)
           | _ \<Rightarrow> None))"

text \<open>
  For comparison with the guard: the least dimension of a Euclidean space that holds each
  synthetic manifold (the circle lies in the plane, the sphere and the torus of
  revolution in space), and the embedding dimensions that are too small for the
  manifold of a dataset.
\<close>

definition spec_min_embedding_dim :: "string \<Rightarrow> int option" where
  "spec_min_embedding_dim dn =
     (if dn = ''s1_synthetic'' then Some 2
      else if dn = ''s2_synthetic'' then Some 3
      else if dn = ''t2_synthetic'' then Some 3
      else None)"

definition spec_too_small :: "string \<Rightarrow> int \<Rightarrow> bool" where
  "spec_too_small dn ed =
     (case spec_min_embedding_dim dn of None \<Rightarrow> False | Some least \<Rightarrow> ed < least)"

section \<open>curvature/main.py: one run\<close>

subsection \<open>Run name and output paths\<close>

text \<open>
  \<^verbatim>\<open>os.path.join\<close> with two arguments, on a POSIX system: an absolute second
  component discards the first; a separator is put between the two unless the first is
  empty or already ends with one.
\<close>

definition os_path_join :: "string \<Rightarrow> string \<Rightarrow> string" where
  "os_path_join a b =
     (if b \<noteq> [] \<and> hd b = CHR ''/'' then b
      else if a = [] \<or> last a = CHR ''/'' then a @ b
      else a @ ''/'' @ b)"

text \<open>
  The configuration of a run, \<^verbatim>\<open>wandb.config\<close>, after \<open>fixed_config\<close> and
  \<open>sweep_config\<close> have been merged into it. The fields are the keys the functions of
  this module read; the other keys live in the extension slot of the record.
\<close>

record 'f sweep_config =
  cfg_dataset_name :: string
  cfg_sweep_name :: string
  posterior_type :: string
  latent_dim :: int
  sftbeta :: 'f
  encoder_width :: int
  encoder_depth :: int
  decoder_width :: int
  decoder_depth :: int
  drop_out_p :: 'f
  device :: string
  lr :: 'f
  scheduler :: bool
  n_grid_points :: int

text \<open>The four keys \<open>main_run\<close> adds once the data is loaded.\<close>

record 'f run_config = "'f sweep_config" +
  run_name :: string
  results_prefix :: string
  data_n_times :: nat
  data_dim :: nat

text \<open>
  \<open>run_id\<close> is \<^verbatim>\<open>wandb.run.id\<close>, which the tracking service assigns when the run is
  initialised; it is an input of the run, not a key of its configuration.
\<close>

definition make_run_name :: "string \<Rightarrow> string \<Rightarrow> string" where
  "make_run_name run_id sweep_name = ''run_'' @ run_id @ ''_'' @ sweep_name"

definition main_run_config :: "string \<Rightarrow> nat \<times> nat \<Rightarrow> 'f sweep_config \<Rightarrow> 'f run_config" where
  "main_run_config run_id dataset_shape c =
     (let rn = make_run_name run_id (cfg_sweep_name c)
      in sweep_config.extend c
           (run_config.fields rn rn (fst dataset_shape) (snd dataset_shape)))"

definition wandb_config_path :: "string \<Rightarrow> string \<Rightarrow> string" where
  "wandb_config_path configs_dir rn = os_path_join configs_dir (rn @ ''.json'')"

definition model_path :: "string \<Rightarrow> ('f, 'z) run_config_scheme \<Rightarrow> string" where
  "model_path trained_models_dir config =
     os_path_join trained_models_dir (results_prefix config @ ''_model.pt'')"

definition model_state_dict_path :: "string \<Rightarrow> ('f, 'z) run_config_scheme \<Rightarrow> string" where
  "model_state_dict_path trained_models_dir config =
     os_path_join trained_models_dir (results_prefix config @ ''_model_state_dict.pth'')"

definition curv_norm_learned_profile_path :: "string \<Rightarrow> ('f, 'z) run_config_scheme \<Rightarrow> string" where
  "curv_norm_learned_profile_path curvature_profiles_dir config =
     os_path_join curvature_profiles_dir
       (results_prefix config @ ''_curv_norm_learned_profile.csv'')"

definition curv_norm_true_profile_path :: "string \<Rightarrow> ('f, 'z) run_config_scheme \<Rightarrow> string" where
  "curv_norm_true_profile_path curvature_profiles_dir config =
     os_path_join curvature_profiles_dir
       (results_prefix config @ ''_curv_norm_true_profile.csv'')"

subsection \<open>Model selection and training\<close>

text \<open>
  The random generators the function reseeds. A generator state is the seed it was last
  given and the number of values drawn since. The CUDA generators exist exactly when
  \<^verbatim>\<open>torch.cuda.is_available()\<close> holds.
\<close>

datatype gen_state = Gen int nat

record rng =
  python_random :: gen_state
  torch_cpu :: gen_state
  torch_cuda :: "gen_state option"

definition cuda_is_available :: "rng \<Rightarrow> bool" where
  "cuda_is_available r \<longleftrightarrow> torch_cuda r \<noteq> None"

text \<open>
  \<^verbatim>\<open>random.seed(0); torch.manual_seed(0); if torch.cuda.is_available():
  torch.cuda.manual_seed_all(0)\<close>
\<close>

definition seed_all :: "rng \<Rightarrow> rng" where
  "seed_all r =
     (let r1 = r\<lparr>python_random := Gen 0 0\<rparr>;
          r2 = r1\<lparr>torch_cpu := Gen 0 0\<rparr>
      in if cuda_is_available r2 then r2\<lparr>torch_cuda := Some (Gen 0 0)\<rparr> else r2)"

text \<open>
  The three model classes live in modules that are not part of the sources at hand. A
  constructed model is described by everything its construction can depend on: the
  class, the keyword arguments, the device it is moved to and the state of the random
  generators when the constructor runs (which fixes the initial parameters).
  \<open>NeuralVAE\<close> alone takes \<open>drop_out_p\<close>.
\<close>

datatype model_class = NeuralVAE | ToroidalVAE | KleinBottleVAE

record 'f vae =
  vae_class :: model_class
  vae_data_dim :: nat
  vae_latent_dim :: int
  vae_sftbeta :: 'f
  vae_encoder_width :: int
  vae_encoder_depth :: int
  vae_decoder_width :: int
  vae_decoder_depth :: int
  vae_posterior_type :: string
  vae_drop_out_p :: "'f option"
  vae_device :: string
  vae_init_rng :: rng

definition construct ::
  "model_class \<Rightarrow> rng \<Rightarrow> ('f, 'z) sweep_config_scheme \<Rightarrow> nat \<Rightarrow> 'f option \<Rightarrow> 'f vae" where
  "construct cls r config dd dop =
     \<lparr>vae_class = cls, vae_data_dim = dd, vae_latent_dim = latent_dim config,
      vae_sftbeta = sftbeta config, vae_encoder_width = encoder_width config,
      vae_encoder_depth = encoder_depth config, vae_decoder_width = decoder_width config,
      vae_decoder_depth = decoder_depth config, vae_posterior_type = posterior_type config,
      vae_drop_out_p = dop, vae_device = device config, vae_init_rng = r\<rparr>"

text \<open>
  The \<^verbatim>\<open>if\<close>/\<^verbatim>\<open>elif\<close> chain that assigns \<open>model\<close>. It has no \<^verbatim>\<open>else\<close>: \<open>None\<close> is
  the variable left unassigned.
\<close>

definition create_model :: "rng \<Rightarrow> ('f, 'z) sweep_config_scheme \<Rightarrow> nat \<Rightarrow> 'f vae option" where
  "create_model r config dd =
     (if posterior_type config \<in> set [''gaussian'', ''hyperspherical''] then
        Some (construct NeuralVAE (seed_all r) config dd (Some (drop_out_p config)))
      else if posterior_type config = ''toroidal'' then
        Some (construct ToroidalVAE (seed_all r) config dd None)
      else if posterior_type config = ''klein_bottle'' then
        Some (construct KleinBottleVAE (seed_all r) config dd None)
      else None)"

text \<open>
  For comparison with \<open>create_model\<close>: the class that the specification names for each
  tag.
\<close>

definition spec_class_of_tag :: "string \<Rightarrow> model_class option" where
  "spec_class_of_tag tag =
     (if tag = ''gaussian'' \<or> tag = ''hyperspherical'' then Some NeuralVAE
      else if tag = ''toroidal'' then Some ToroidalVAE
      else if tag = ''klein_bottle'' then Some KleinBottleVAE
      else None)"

text \<open>
  A data loader: its \<open>dataset\<close> is a list of pairs of a data point and a label, a
  data point being a tensor, of which only the shape is read here.
\<close>

record 'x tensor =
  shape :: "nat list"
  entries :: "'x list"

record ('x, 'l) data_loader =
  dataset :: "('x tensor \<times> 'l) list"

text \<open>\<^verbatim>\<open>next(iter(train_loader.dataset[0][0].data.shape))\<close>\<close>

definition first_data_dim :: "('x, 'l) data_loader \<Rightarrow> error + nat" where
  "first_data_dim train_loader =
     (case dataset train_loader of
        [] \<Rightarrow> Inl IndexError
      | (x, _) # _ \<Rightarrow> (case shape x of [] \<Rightarrow> Inl StopIteration | d # _ \<Rightarrow> Inr d))"

record 'f adam =
  adam_params :: "'f vae"
  adam_lr :: 'f
  adam_amsgrad :: bool

record 'f reduce_lr_on_plateau =
  sched_optimizer :: "'f adam"
  sched_mode :: string
  sched_factor :: real

text \<open>The keyword arguments of the call of \<^verbatim>\<open>train.train_test\<close>.\<close>

record ('f, 'x, 'l, 'c) train_test_args =
  tt_model :: "'f vae"
  tt_train_loader :: "('x, 'l) data_loader"
  tt_test_loader :: "('x, 'l) data_loader"
  tt_optimizer :: "'f adam"
  tt_scheduler :: "'f reduce_lr_on_plateau option"
  tt_config :: 'c

text \<open>
  \<open>train_test\<close> is the training loop of the module \<^verbatim>\<open>train\<close>, which is not
  part of the sources at hand; its result is the triple
  \<open>(train_losses, test_losses, best_model)\<close>.
\<close>

definition create_model_and_train_test ::
  "(('f, 'x, 'l, ('f, 'z) sweep_config_scheme) train_test_args \<Rightarrow> 'res) \<Rightarrow> rng
     \<Rightarrow> ('f, 'z) sweep_config_scheme \<Rightarrow> ('x, 'l) data_loader \<Rightarrow> ('x, 'l) data_loader
     \<Rightarrow> error + 'res" where
  "create_model_and_train_test train_test r config train_loader test_loader =
     (case first_data_dim train_loader of
        Inl e \<Rightarrow> Inl e
      | Inr dd \<Rightarrow>
          (case create_model r config dd of
             None \<Rightarrow> Inl (UnboundLocalError ''model'')
           | Some model \<Rightarrow>
               (let optimizer = \<lparr>adam_params = model, adam_lr = lr config, adam_amsgrad = True\<rparr>;
                    sched = (if scheduler config
                             then Some \<lparr>sched_optimizer = optimizer, sched_mode = ''min'',
                                        sched_factor = 1 / 2\<rparr>
                             else None)
                in Inr (train_test
                     \<lparr>tt_model = model, tt_train_loader = train_loader,
                      tt_test_loader = test_loader, tt_optimizer = optimizer,
                      tt_scheduler = sched, tt_config = config\<rparr>))))"

subsection \<open>Curvature profiles\<close>

text \<open>
  A cell of a data frame: a float, or a Python \<open>int\<close> (the sentinel \<open>-1\<close> of the
  velocity columns). \<open>'v\<close> is the type of floats; the arithmetic on them is done by
  library routines, which are parameters of the model.
\<close>

datatype 'v cell = Val 'v | IntCell int

text \<open>
  A \<^verbatim>\<open>pandas.DataFrame\<close> with the default index \<open>0, 1, \<dots>\<close> and its columns in
  insertion order.
\<close>

record 'v dataframe =
  df_index :: "nat list"
  df_columns :: "(string \<times> 'v cell list) list"

text \<open>\<^verbatim>\<open>pd.DataFrame({k1: a1, k2: a2})\<close>: the two arrays must have one length.\<close>

definition new_dataframe ::
  "string \<Rightarrow> 'v cell list \<Rightarrow> string \<Rightarrow> 'v cell list \<Rightarrow> error + 'v dataframe" where
  "new_dataframe k1 a1 k2 a2 =
     (if length a1 \<noteq> length a2 then Inl (ValueError ''All arrays must be of the same length'')
      else Inr \<lparr>df_index = [0..<length a1], df_columns = [(k1, a1), (k2, a2)]\<rparr>)"

fun update_column :: "string \<Rightarrow> 'c \<Rightarrow> (string \<times> 'c) list \<Rightarrow> (string \<times> 'c) list" where
  "update_column k v [] = [(k, v)]"
| "update_column k v (p # ps) = (if fst p = k then (k, v) # ps else p # update_column k v ps)"

text \<open>\<^verbatim>\<open>df[k] = values\<close>: the values must be as many as the rows.\<close>

definition set_column :: "'v dataframe \<Rightarrow> string \<Rightarrow> 'v cell list \<Rightarrow> error + 'v dataframe" where
  "set_column df k vs =
     (if length vs \<noteq> length (df_index df)
      then Inl (ValueError ''Length of values does not match length of index'')
      else Inr (df\<lparr>df_columns := update_column k vs (df_columns df)\<rparr>))"

text \<open>
  \<^verbatim>\<open>df.to_csv(path)\<close>: a header line with an empty name for the index followed by the
  column names, then one line per row, led by the index of the row.
\<close>

record 'v csv_file =
  csv_header :: "string list"
  csv_rows :: "(nat \<times> 'v cell list) list"

definition to_csv :: "'v dataframe \<Rightarrow> 'v csv_file" where
  "to_csv df =
     \<lparr>csv_header = [] # map fst (df_columns df),
      csv_rows = map (\<lambda>i. (df_index df ! i, map (\<lambda>(k, col). col ! i) (df_columns df)))
                   [0..<length (df_index df)]\<rparr>"

text \<open>
  The latent grid returned by the evaluation routines: a vector of angles for a
  one-dimensional latent space, an array with two columns for a two-dimensional one.
\<close>

datatype 'v grid = Grid1 "'v list" | Grid2 "('v \<times> 'v) list"

text \<open>\<^verbatim>\<open>profile["z_grid"] = z_grid\<close>\<close>

definition set_z_grid :: "'v dataframe \<Rightarrow> 'v grid \<Rightarrow> error + 'v dataframe" where
  "set_z_grid df z_grid =
     (case z_grid of
        Grid1 zs \<Rightarrow> set_column df ''z_grid'' (map Val zs)
      | Grid2 ps \<Rightarrow> Inl (ValueError ''Cannot set a 2-D array to a single column''))"

text \<open>
  \<^verbatim>\<open>profile["z_grid_theta"] = z_grid[:, 0]; profile["z_grid_phi"] = z_grid[:, 1]\<close>
\<close>

definition set_z_grid_theta_phi :: "'v dataframe \<Rightarrow> 'v grid \<Rightarrow> error + 'v dataframe" where
  "set_z_grid_theta_phi df z_grid =
     (case z_grid of
        Grid1 zs \<Rightarrow> Inl IndexError
      | Grid2 ps \<Rightarrow>
          (case set_column df ''z_grid_theta'' (map (\<lambda>p. Val (fst p)) ps) of
             Inl e \<Rightarrow> Inl e
           | Inr df' \<Rightarrow> set_column df' ''z_grid_phi'' (map (\<lambda>p. Val (snd p)) ps)))"

text \<open>The two columns of \<open>labels\<close> that the experimental branch reads.\<close>

record 'v label_row =
  angles :: 'v
  velocities :: 'v

text \<open>
  The numpy routines of the experimental branch. \<open>in_window z a\<close> stands for the
  comparison \<^verbatim>\<open>np.abs((z - a) % 2 * np.pi) < 0.2\<close> at one label.
\<close>

record 'v numpy =
  in_window :: "'v \<Rightarrow> 'v \<Rightarrow> bool"
  nanmean :: "'v list \<Rightarrow> 'v"
  nanmedian :: "'v list \<Rightarrow> 'v"
  nanstd :: "'v list \<Rightarrow> 'v"
  nanmin :: "'v list \<Rightarrow> 'v"
  nanmax :: "'v list \<Rightarrow> 'v"

record 'v velocity_columns =
  mean_velocities :: "'v cell list"
  median_velocities :: "'v cell list"
  std_velocities :: "'v cell list"
  min_velocities :: "'v cell list"
  max_velocities :: "'v cell list"

fun velocity_loop ::
  "'v numpy \<Rightarrow> 'v label_row list \<Rightarrow> 'v list \<Rightarrow> 'v velocity_columns \<Rightarrow> 'v velocity_columns" where
  "velocity_loop np labels [] acc = acc"
| "velocity_loop np labels (one_z_grid # zs) acc =
     (let selected_labels = filter (\<lambda>row. in_window np one_z_grid (angles row)) labels;
          vs = map velocities selected_labels;
          acc1 = acc\<lparr>mean_velocities := mean_velocities acc @ [Val (nanmean np vs)]\<rparr>;
          acc2 = acc1\<lparr>median_velocities := median_velocities acc1 @ [Val (nanmedian np vs)]\<rparr>;
          acc3 = acc2\<lparr>std_velocities := std_velocities acc2 @ [Val (nanstd np vs)]\<rparr>;
          acc4 = (if length selected_labels = 0
                  then acc3\<lparr>min_velocities := min_velocities acc3 @ [IntCell (- 1)],
                            max_velocities := max_velocities acc3 @ [IntCell (- 1)]\<rparr>
                  else acc3\<lparr>min_velocities := min_velocities acc3 @ [Val (nanmin np vs)],
                            max_velocities := max_velocities acc3 @ [Val (nanmax np vs)]\<rparr>)
      in velocity_loop np labels zs acc4)"

text \<open>
  The experimental branch: the loop runs over the column \<open>z_grid\<close> just stored, and
  the five lists become five columns.
\<close>

definition set_velocity_columns ::
  "'v numpy \<Rightarrow> 'v label_row list \<Rightarrow> 'v dataframe \<Rightarrow> 'v grid \<Rightarrow> error + 'v dataframe" where
  "set_velocity_columns np labels df z_grid =
     (let zs = (case z_grid of Grid1 zs \<Rightarrow> zs | Grid2 ps \<Rightarrow> []);
          cols = velocity_loop np labels zs
                   \<lparr>mean_velocities = [], median_velocities = [], std_velocities = [],
                    min_velocities = [], max_velocities = []\<rparr>
      in case set_column df ''mean_velocities'' (mean_velocities cols) of
           Inl e \<Rightarrow> Inl e
         | Inr df1 \<Rightarrow>
        (case set_column df1 ''median_velocities'' (median_velocities cols) of
           Inl e \<Rightarrow> Inl e
         | Inr df2 \<Rightarrow>
        (case set_column df2 ''std_velocities'' (std_velocities cols) of
           Inl e \<Rightarrow> Inl e
         | Inr df3 \<Rightarrow>
        (case set_column df3 ''min_velocities'' (min_velocities cols) of
           Inl e \<Rightarrow> Inl e
         | Inr df4 \<Rightarrow> set_column df4 ''max_velocities'' (max_velocities cols)))))"

text \<open>The data frame \<open>curv_norm_learned_profile\<close>, as it is when it is written.\<close>

definition curv_norm_learned_profile ::
  "'v numpy \<Rightarrow> string \<Rightarrow> 'v label_row list \<Rightarrow> 'v grid \<Rightarrow> 'v list \<Rightarrow> 'v list
     \<Rightarrow> error + 'v dataframe" where
  "curv_norm_learned_profile np dn labels z_grid geodesic_dist curv_norms_learned =
     (case new_dataframe ''geodesic_dist'' (map Val geodesic_dist)
             ''curv_norm_learned'' (map Val curv_norms_learned) of
        Inl e \<Rightarrow> Inl e
      | Inr df \<Rightarrow>
          (case (if dn \<in> set [''s1_synthetic'', ''experimental'', ''three_place_cells_synthetic'']
                 then set_z_grid df z_grid
                 else if dn \<in> set [''s2_synthetic'', ''t2_synthetic'', ''grid_cells'']
                 then set_z_grid_theta_phi df z_grid
                 else Inr df) of
             Inl e \<Rightarrow> Inl e
           | Inr df' \<Rightarrow>
               (if dn = ''experimental'' then set_velocity_columns np labels df' z_grid
                else Inr df')))"

text \<open>The data frame \<open>curv_norm_true_profile\<close> of the synthetic datasets.\<close>

definition curv_norm_true_profile ::
  "string \<Rightarrow> 'v grid \<Rightarrow> 'v list \<Rightarrow> 'v list \<Rightarrow> error + 'v dataframe" where
  "curv_norm_true_profile dn z_grid geodesic_dist curv_norms_true =
     (case new_dataframe ''geodesic_dist'' (map Val geodesic_dist)
             ''curv_norm_true'' (map Val curv_norms_true) of
        Inl e \<Rightarrow> Inl e
      | Inr df \<Rightarrow>
          (if dn = ''s1_synthetic'' then set_z_grid df z_grid
           else set_z_grid_theta_phi df z_grid))"

text \<open>
  The routines of the module \<^verbatim>\<open>evaluate\<close>, which is not part of the sources at
  hand. Each returns the grid, the geodesic distances and the curvature norms (the
  third component of the source's result is dropped at once).
\<close>

record ('m, 'c, 'v) evaluate =
  compute_curvature_learned :: "'m \<Rightarrow> 'c \<Rightarrow> nat \<Rightarrow> int \<Rightarrow> 'v grid \<times> 'v list \<times> 'v list"
  compute_curvature_true :: "'c \<Rightarrow> int \<Rightarrow> 'v grid \<times> 'v list \<times> 'v list"

text \<open>
  The files \<open>curvature_compute_plot_log\<close> writes, in order, with the exception that
  ended it, if any. \<open>max(curv_norms_true)\<close> raises on an empty sequence, before the
  second file is written. Plotting and the calls of the dashboard are left out.
\<close>

definition curvature_compute_plot_log ::
  "'v numpy \<Rightarrow> ('m, ('f, 'z) run_config_scheme, 'v) evaluate \<Rightarrow> string
     \<Rightarrow> ('f, 'z) run_config_scheme \<Rightarrow> 'x tensor \<Rightarrow> 'v label_row list \<Rightarrow> 'm
     \<Rightarrow> (string \<times> 'v csv_file) list \<times> error option" where
  "curvature_compute_plot_log np ev curvature_profiles_dir config dataset_t labels model =
     (case shape dataset_t of
        [] \<Rightarrow> ([], Some IndexError)
      | [n] \<Rightarrow> ([], Some IndexError)
      | n # ed # rest \<Rightarrow>
     (case compute_curvature_learned ev model config ed (n_grid_points config) of
        (z_grid, geodesic_dist, curv_norms_learned) \<Rightarrow>
     (case curv_norm_learned_profile np (cfg_dataset_name config) labels z_grid geodesic_dist
             curv_norms_learned of
        Inl e \<Rightarrow> ([], Some e)
      | Inr profile \<Rightarrow>
          (let files = [(curv_norm_learned_profile_path curvature_profiles_dir config,
                         to_csv profile)]
           in if cfg_dataset_name config \<in> set [''s1_synthetic'', ''s2_synthetic'', ''t2_synthetic'']
              then
                (case compute_curvature_true ev config (n_grid_points config) of
                   (z_grid_true, geodesic_dist_true, curv_norms_true) \<Rightarrow>
                     if curv_norms_true = []
                     then (files, Some (ValueError ''max() arg is an empty sequence''))
                     else
                       (case curv_norm_true_profile (cfg_dataset_name config) z_grid_true
                               geodesic_dist_true curv_norms_true of
                          Inl e \<Rightarrow> (files, Some e)
                        | Inr true_profile \<Rightarrow>
                            (files @ [(curv_norm_true_profile_path curvature_profiles_dir config,
                                       to_csv true_profile)], None)))
              else (files, None)))))"

subsection \<open>Reading a written profile\<close>

text \<open>
  Notions used to state what the written files hold: the column of a CSV file under a
  given name and one of its cells; the length of a grid and the columns it contributes;
  which grid shape goes with which dataset name; a data frame all of whose columns are
  as long as its default index; the condition that an evaluation routine returned as
  many distances and norms as grid points, on a grid of the shape of the dataset; and
  the property that a CSV file has one row per grid point, led by its index, and holds
  the distances, the norms under the given name and the grid coordinates.
\<close>

fun index_of :: "'a \<Rightarrow> 'a list \<Rightarrow> nat option" where
  "index_of k [] = None"
| "index_of k (x # xs) = (if x = k then Some 0 else map_option Suc (index_of k xs))"

definition csv_column :: "'v csv_file \<Rightarrow> string \<Rightarrow> 'v cell list option" where
  "csv_column f k =
     (case csv_header f of
        [] \<Rightarrow> None
      | index_name # names \<Rightarrow>
          (case index_of k names of
             None \<Rightarrow> None
           | Some j \<Rightarrow> Some (map (\<lambda>(i, cells). cells ! j) (csv_rows f))))"

definition csv_cell :: "'v csv_file \<Rightarrow> string \<Rightarrow> nat \<Rightarrow> 'v cell option" where
  "csv_cell f k i =
     (case csv_column f k of
        None \<Rightarrow> None
      | Some col \<Rightarrow> if i < length col then Some (col ! i) else None)"

definition grid_length :: "'v grid \<Rightarrow> nat" where
  "grid_length z_grid = (case z_grid of Grid1 zs \<Rightarrow> length zs | Grid2 ps \<Rightarrow> length ps)"

definition grid_columns :: "'v grid \<Rightarrow> (string \<times> 'v cell list) list" where
  "grid_columns z_grid =
     (case z_grid of
        Grid1 zs \<Rightarrow> [(''z_grid'', map Val zs)]
      | Grid2 ps \<Rightarrow> [(''z_grid_theta'', map (\<lambda>p. Val (fst p)) ps),
                     (''z_grid_phi'', map (\<lambda>p. Val (snd p)) ps)])"

definition grid_matches :: "string \<Rightarrow> 'v grid \<Rightarrow> bool" where
  "grid_matches dn z_grid =
     (case z_grid of
        Grid1 zs \<Rightarrow> dn \<in> set [''s1_synthetic'', ''experimental'', ''three_place_cells_synthetic'']
      | Grid2 ps \<Rightarrow> dn \<in> set [''s2_synthetic'', ''t2_synthetic'', ''grid_cells''])"

definition df_well_formed :: "'v dataframe \<Rightarrow> bool" where
  "df_well_formed df \<longleftrightarrow>
     df_index df = [0..<length (df_index df)]
     \<and> (\<forall>kc \<in> set (df_columns df). length (snd kc) = length (df_index df))"

definition curvature_result_ok :: "string \<Rightarrow> 'v grid \<times> 'v list \<times> 'v list \<Rightarrow> bool" where
  "curvature_result_ok dn res =
     (case res of (z_grid, geodesic_dist, curv_norms) \<Rightarrow>
        length geodesic_dist = grid_length z_grid \<and> length curv_norms = grid_length z_grid
        \<and> grid_matches dn z_grid)"

definition is_profile_csv ::
  "'v csv_file \<Rightarrow> string \<Rightarrow> 'v grid \<times> 'v list \<times> 'v list \<Rightarrow> bool" where
  "is_profile_csv f curv_name res =
     (case res of (z_grid, geodesic_dist, curv_norms) \<Rightarrow>
        map fst (csv_rows f) = [0..<grid_length z_grid]
        \<and> csv_column f ''geodesic_dist'' = Some (map Val geodesic_dist)
        \<and> csv_column f curv_name = Some (map Val curv_norms)
        \<and> (\<forall>kc \<in> set (grid_columns z_grid). csv_column f (fst kc) = Some (snd kc)))"

section \<open>dimension/dimension.py\<close>

subsection \<open>Intrinsic dimension estimation\<close>

text \<open>
  The library routines \<open>skdim_dimension_estimation\<close> calls. \<open>'e\<close> is an estimator
  object, with whatever state fitting leaves in it; \<open>'p\<close> a point cloud; \<open>'n\<close> a neural
  manifold; \<open>'g\<close> the state of the random generator the two sampling routines draw
  from; \<open>'r\<close> the floats. \<open>get_estimator name\<close> is \<^verbatim>\<open>getattr(skdim.id, name)()\<close> and
  \<open>get_point_generator name\<close> is \<^verbatim>\<open>getattr(synthetic, name)\<close>, \<open>None\<close> when the
  module has no such attribute. \<open>mean_dimension\<close> is \<^verbatim>\<open>np.mean(method.dimension_)\<close>.
  \<open>synthetic_neural_manifold\<close> is called with the nonlinearity \<^verbatim>\<open>"sigmoid"\<close> and unit
  scales; the second component of its result is dropped.
\<close>

record ('e, 'p, 'n, 'g, 'r) estimation_lib =
  dir_skdim_id :: "string list"
  get_estimator :: "string \<Rightarrow> 'e option"
  fit :: "'e \<Rightarrow> 'n \<Rightarrow> 'e"
  mean_dimension :: "'e \<Rightarrow> 'r"
  get_point_generator :: "string \<Rightarrow> ('g \<Rightarrow> int \<Rightarrow> int \<Rightarrow> 'p \<times> 'g) option"
  synthetic_neural_manifold :: "'g \<Rightarrow> 'p \<Rightarrow> int \<Rightarrow> 'r \<Rightarrow> 'r \<Rightarrow> 'n \<times> 'g"
  np_sqrt :: "'r \<Rightarrow> 'r"

text \<open>The argument \<open>methods\<close>: the string \<^verbatim>\<open>"all"\<close> or a list of names.\<close>

datatype methods_arg = AllMethods | MethodNames "string list"

definition startswith_underscore :: "string \<Rightarrow> bool" where
  "startswith_underscore s \<longleftrightarrow> (case s of [] \<Rightarrow> False | c # _ \<Rightarrow> c = CHR ''_'')"

definition requested_methods :: "('e, 'p, 'n, 'g, 'r) estimation_lib \<Rightarrow> methods_arg \<Rightarrow> string list" where
  "requested_methods L methods =
     (case methods of
        AllMethods \<Rightarrow> [method \<leftarrow> dir_skdim_id L. \<not> startswith_underscore method]
      | MethodNames ms \<Rightarrow> ms)"

text \<open>
  The innermost loop: \<^verbatim>\<open>for trial_idx in range(num_trials)\<close>. It refits the
  estimator to \<open>neural_manifold\<close> and stores the estimate.
\<close>

fun trial_loop ::
  "('e, 'p, 'n, 'g, 'r) estimation_lib \<Rightarrow> 'n \<Rightarrow> nat \<Rightarrow> nat list \<Rightarrow> 'e \<times> 'r list list
     \<Rightarrow> 'e \<times> 'r list list" where
  "trial_loop L neural_manifold dim_idx [] (method, estimates) = (method, estimates)"
| "trial_loop L neural_manifold dim_idx (trial_idx # rest) (method, estimates) =
     (let method' = fit L method neural_manifold;
          estimates' = estimates[dim_idx := (estimates ! dim_idx)[trial_idx := mean_dimension L method']]
      in trial_loop L neural_manifold dim_idx rest (method', estimates'))"

text \<open>The arguments that stay fixed through the loops.\<close>

record 'r estimation_args =
  num_trials :: int
  num_points :: int
  num_neurons :: int
  poisson_multiplier :: 'r
  ref_frequency :: 'r

text \<open>\<^verbatim>\<open>for dim_idx, dim in enumerate(dimensions)\<close>\<close>

fun dim_loop ::
  "('e, 'p, 'n, 'g, 'r) estimation_lib \<Rightarrow> ('g \<Rightarrow> int \<Rightarrow> int \<Rightarrow> 'p \<times> 'g) \<Rightarrow> 'r estimation_args
     \<Rightarrow> (nat \<times> int) list \<Rightarrow> 'g \<times> 'e \<times> 'r list list \<Rightarrow> 'g \<times> 'e \<times> 'r list list" where
  "dim_loop L point_generator A [] (g, method, estimates) = (g, method, estimates)"
| "dim_loop L point_generator A ((dim_idx, dm) # rest) (g, method, estimates) =
     (case point_generator g dm (num_points A) of
        (points, g1) \<Rightarrow>
     (case synthetic_neural_manifold L g1 points (num_neurons A) (poisson_multiplier A)
             (ref_frequency A) of
        (neural_manifold, g2) \<Rightarrow>
     (case trial_loop L neural_manifold dim_idx [0..<nat (num_trials A)] (method, estimates) of
        (method', estimates') \<Rightarrow>
          dim_loop L point_generator A rest (g2, method', estimates'))))"

definition enumerate_from0 :: "'a list \<Rightarrow> (nat \<times> 'a) list" where
  "enumerate_from0 xs = zip [0..<length xs] xs"

text \<open>
  \<^verbatim>\<open>for method_name in methods\<close>. \<^verbatim>\<open>np.zeros\<close> rejects a negative dimension.
\<close>

fun method_loop ::
  "('e, 'p, 'n, 'g, 'r::zero) estimation_lib \<Rightarrow> ('g \<Rightarrow> int \<Rightarrow> int \<Rightarrow> 'p \<times> 'g)
     \<Rightarrow> 'r estimation_args \<Rightarrow> int list \<Rightarrow> string list \<Rightarrow> 'g \<times> (string \<rightharpoonup> 'r list list)
     \<Rightarrow> error + 'g \<times> (string \<rightharpoonup> 'r list list)" where
  "method_loop L point_generator A dimensions [] (g, id_estimates) = Inr (g, id_estimates)"
| "method_loop L point_generator A dimensions (method_name # rest) (g, id_estimates) =
     (case get_estimator L method_name of
        None \<Rightarrow> Inl (AttributeError method_name)
      | Some method \<Rightarrow>
          if num_trials A < 0 then Inl (ValueError ''negative dimensions are not allowed'')
          else
            (let estimates = replicate (length dimensions) (replicate (nat (num_trials A)) 0)
             in case dim_loop L point_generator A (enumerate_from0 dimensions)
                       (g, method, estimates) of
                  (g', method', estimates') \<Rightarrow>
                    method_loop L point_generator A dimensions rest
                      (g', id_estimates(method_name \<mapsto> estimates'))))"

text \<open>
  The function returns the dictionary of estimates and the noise level. Python's
  division raises on a zero divisor.
\<close>

definition skdim_dimension_estimation ::
  "('e, 'p, 'n, 'g, 'r::{zero,one,times,inverse}) estimation_lib \<Rightarrow> 'g \<Rightarrow> methods_arg \<Rightarrow> int list
     \<Rightarrow> string \<Rightarrow> 'r estimation_args \<Rightarrow> error + (string \<rightharpoonup> 'r list list) \<times> 'r" where
  "skdim_dimension_estimation L g methods dimensions manifold_type A =
     (let methods' = requested_methods L methods
      in case get_point_generator L manifold_type of
           None \<Rightarrow> Inl (AttributeError manifold_type)
         | Some point_generator \<Rightarrow>
             if ref_frequency A * poisson_multiplier A = 0 then Inl ZeroDivisionError
             else
               (let noise_level = np_sqrt L (1 / (ref_frequency A * poisson_multiplier A))
                in case method_loop L point_generator A dimensions methods' (g, Map.empty) of
                     Inl e \<Rightarrow> Inl e
                   | Inr (g', id_estimates) \<Rightarrow> Inr (id_estimates, noise_level)))"

text \<open>
  For comparison with the loops: the estimator after \<open>k\<close> successive fits to one neural
  manifold; the row of estimates that \<open>n\<close> successive fits to it give; and the rows of
  one method, each from one point cloud and one neural manifold generated for its
  dimension, the generator state and the estimator being passed on from row to row.
\<close>

definition refits :: "('e, 'p, 'n, 'g, 'r) estimation_lib \<Rightarrow> 'n \<Rightarrow> 'e \<Rightarrow> nat \<Rightarrow> 'e" where
  "refits L neural_manifold method k = ((\<lambda>e. fit L e neural_manifold) ^^ k) method"

definition trial_row :: "('e, 'p, 'n, 'g, 'r) estimation_lib \<Rightarrow> 'n \<Rightarrow> 'e \<Rightarrow> nat \<Rightarrow> 'r list" where
  "trial_row L neural_manifold method n =
     map (\<lambda>k. mean_dimension L (refits L neural_manifold method (Suc k))) [0..<n]"

fun dim_rows ::
  "('e, 'p, 'n, 'g, 'r) estimation_lib \<Rightarrow> ('g \<Rightarrow> int \<Rightarrow> int \<Rightarrow> 'p \<times> 'g) \<Rightarrow> 'r estimation_args
     \<Rightarrow> int list \<Rightarrow> 'g \<times> 'e \<Rightarrow> 'r list list \<times> 'g \<times> 'e" where
  "dim_rows L point_generator A [] (g, method) = ([], g, method)"
| "dim_rows L point_generator A (dm # rest) (g, method) =
     (case point_generator g dm (num_points A) of
        (points, g1) \<Rightarrow>
     (case synthetic_neural_manifold L g1 points (num_neurons A) (poisson_multiplier A)
             (ref_frequency A) of
        (neural_manifold, g2) \<Rightarrow>
     (case dim_rows L point_generator A rest
             (g2, refits L neural_manifold method (nat (num_trials A))) of
        (rows, g', method') \<Rightarrow>
          (trial_row L neural_manifold method (nat (num_trials A)) # rows, g', method'))))"

text \<open>
  For comparison with the outer loop: the rows of the requested methods in the order of
  the requests, the generator state being passed on from method to method. The list
  ends where a name has no estimator, which is where the code raises.
\<close>

fun method_rows ::
  "('e, 'p, 'n, 'g, 'r) estimation_lib \<Rightarrow> ('g \<Rightarrow> int \<Rightarrow> int \<Rightarrow> 'p \<times> 'g) \<Rightarrow> 'r estimation_args
     \<Rightarrow> int list \<Rightarrow> string list \<Rightarrow> 'g \<Rightarrow> (string \<times> 'r list list) list" where
  "method_rows L point_generator A dimensions [] g = []"
| "method_rows L point_generator A dimensions (method_name # rest) g =
     (case get_estimator L method_name of
        None \<Rightarrow> []
      | Some method \<Rightarrow>
          (case dim_rows L point_generator A dimensions (g, method) of
             (rows, g', method') \<Rightarrow>
               (method_name, rows) # method_rows L point_generator A dimensions rest g'))"

subsection \<open>PLS and PCA evaluation\<close>

text \<open>
  The scikit-learn routines of the two evaluation functions. \<open>train_test_split\<close> is
  called with a fixed \<open>test_size\<close> and \<open>random_state\<close>, so it is a function of the
  data. \<open>fit_pls K\<close> is \<^verbatim>\<open>PLSRegression(n_components=K).fit\<close>, \<open>fit_pca K\<close> is
  \<^verbatim>\<open>PCA(n_components=K).fit\<close>, \<open>fit_multi_output\<close> is
  \<^verbatim>\<open>MultiOutputRegressor(LinearRegression()).fit\<close> and \<open>r2_score\<close> is called with
  \<^verbatim>\<open>multioutput="uniform_average"\<close>.
\<close>

record ('x, 'y, 'xp, 'pls, 'pca, 'reg, 'r) sklearn =
  train_test_split :: "'x \<Rightarrow> 'y \<Rightarrow> 'x \<times> 'x \<times> 'y \<times> 'y"
  fit_pls :: "int \<Rightarrow> 'x \<Rightarrow> 'y \<Rightarrow> 'pls"
  transform_pls :: "'pls \<Rightarrow> 'x \<Rightarrow> 'xp"
  fit_pca :: "int \<Rightarrow> 'x \<Rightarrow> 'pca"
  transform_pca :: "'pca \<Rightarrow> 'x \<Rightarrow> 'xp"
  fit_multi_output :: "'xp \<Rightarrow> 'y \<Rightarrow> 'reg"
  predict :: "'reg \<Rightarrow> 'xp \<Rightarrow> 'y"
  r2_score :: "'y \<Rightarrow> 'y \<Rightarrow> 'r"

fun pls_loop ::
  "('x, 'y, 'xp, 'pls, 'pca, 'reg, 'r) sklearn \<Rightarrow> 'x \<Rightarrow> 'x \<times> 'x \<times> 'y \<times> 'y \<Rightarrow> int list
     \<Rightarrow> 'r list \<times> 'xp list \<Rightarrow> 'r list \<times> 'xp list" where
  "pls_loop S X split [] (r2_scores, projected_X) = (r2_scores, projected_X)"
| "pls_loop S X (X_train, X_test, Y_train, Y_test) (K # Ks) (r2_scores, projected_X) =
     (let pls = fit_pls S K X_train Y_train;
          X_train_pls = transform_pls S pls X_train;
          X_test_pls = transform_pls S pls X_test;
          X_pls = transform_pls S pls X;
          projected_X' = projected_X @ [X_pls];
          multi_output_reg = fit_multi_output S X_train_pls Y_train;
          Y_pred = predict S multi_output_reg X_test_pls;
          score = r2_score S Y_test Y_pred
      in pls_loop S X (X_train, X_test, Y_train, Y_test) Ks (r2_scores @ [score], projected_X'))"

definition evaluate_pls_with_different_K ::
  "('x, 'y, 'xp, 'pls, 'pca, 'reg, 'r) sklearn \<Rightarrow> 'x \<Rightarrow> 'y \<Rightarrow> int list \<Rightarrow> 'r list \<times> 'xp list" where
  "evaluate_pls_with_different_K S X Y K_values =
     pls_loop S X (train_test_split S X Y) K_values ([], [])"

fun pca_loop ::
  "('x, 'y, 'xp, 'pls, 'pca, 'reg, 'r) sklearn \<Rightarrow> 'x \<Rightarrow> 'x \<times> 'x \<times> 'y \<times> 'y \<Rightarrow> int list
     \<Rightarrow> 'r list \<times> 'xp list \<Rightarrow> 'r list \<times> 'xp list" where
  "pca_loop S X split [] (r2_scores, projected_X) = (r2_scores, projected_X)"
| "pca_loop S X (X_train, X_test, Y_train, Y_test) (K # Ks) (r2_scores, projected_X) =
     (let pca = fit_pca S K X_train;
          X_train_pca = transform_pca S pca X_train;
          X_test_pca = transform_pca S pca X_test;
          X_pca = transform_pca S pca X;
          projected_X' = projected_X @ [X_pca];
          multi_output_reg = fit_multi_output S X_train_pca Y_train;
          Y_pred = predict S multi_output_reg X_test_pca;
          score = r2_score S Y_test Y_pred
      in pca_loop S X (X_train, X_test, Y_train, Y_test) Ks (r2_scores @ [score], projected_X'))"

definition evaluate_PCA_with_different_K ::
  "('x, 'y, 'xp, 'pls, 'pca, 'reg, 'r) sklearn \<Rightarrow> 'x \<Rightarrow> 'y \<Rightarrow> int list \<Rightarrow> 'r list \<times> 'xp list" where
  "evaluate_PCA_with_different_K S X Y K_values =
     pca_loop S X (train_test_split S X Y) K_values ([], [])"

text \<open>
  For comparison with the loops: the projection and the score that one pass of each
  evaluation loop computes for one number of components.
\<close>

definition pls_projection ::
  "('x, 'y, 'xp, 'pls, 'pca, 'reg, 'r) sklearn \<Rightarrow> 'x \<Rightarrow> 'x \<times> 'x \<times> 'y \<times> 'y \<Rightarrow> int \<Rightarrow> 'xp" where
  "pls_projection S X split K =
     (case split of (X_train, X_test, Y_train, Y_test) \<Rightarrow>
        transform_pls S (fit_pls S K X_train Y_train) X)"

definition pls_score ::
  "('x, 'y, 'xp, 'pls, 'pca, 'reg, 'r) sklearn \<Rightarrow> 'x \<times> 'x \<times> 'y \<times> 'y \<Rightarrow> int \<Rightarrow> 'r" where
  "pls_score S split K =
     (case split of (X_train, X_test, Y_train, Y_test) \<Rightarrow>
        r2_score S Y_test
          (predict S
             (fit_multi_output S (transform_pls S (fit_pls S K X_train Y_train) X_train) Y_train)
             (transform_pls S (fit_pls S K X_train Y_train) X_test)))"

definition pca_projection ::
  "('x, 'y, 'xp, 'pls, 'pca, 'reg, 'r) sklearn \<Rightarrow> 'x \<Rightarrow> 'x \<times> 'x \<times> 'y \<times> 'y \<Rightarrow> int \<Rightarrow> 'xp" where
  "pca_projection S X split K =
     (case split of (X_train, X_test, Y_train, Y_test) \<Rightarrow>
        transform_pca S (fit_pca S K X_train) X)"

definition pca_score ::
  "('x, 'y, 'xp, 'pls, 'pca, 'reg, 'r) sklearn \<Rightarrow> 'x \<times> 'x \<times> 'y \<times> 'y \<Rightarrow> int \<Rightarrow> 'r" where
  "pca_score S split K =
     (case split of (X_train, X_test, Y_train, Y_test) \<Rightarrow>
        r2_score S Y_test
          (predict S
             (fit_multi_output S (transform_pca S (fit_pca S K X_train) X_train) Y_train)
             (transform_pca S (fit_pca S K X_train) X_test)))"

section \<open>Concrete inputs\<close>

text \<open>
  A configuration with one experiment and two time steps, and one whose second synthetic
  tuple has an embedding dimension that the guard rejects.
\<close>

definition colliding_config :: "(int, int) default_config" where
  "colliding_config =
     \<lparr>dataset_name = [''experimental''], expt_id = [''34''],
      timestep_microsec = [1000000, 100000], smooth = [True], select_gain_1 = [True],
      n_times = [], embedding_dim = [], geodesic_distortion_amp = [], noise_var = [],
      grid_scale = [], arena_dims = [], n_cells = [], grid_orientation_mean = [],
      grid_orientation_std = [], field_width = [], resolution = []\<rparr>"

definition rejecting_config :: "(int, int) default_config" where
  "rejecting_config =
     \<lparr>dataset_name = [''s2_synthetic'', ''experimental''], expt_id = [''34''],
      timestep_microsec = [1000000], smooth = [True], select_gain_1 = [True],
      n_times = [1000], embedding_dim = [3, 2], geodesic_distortion_amp = [1], noise_var = [5],
      grid_scale = [], arena_dims = [], n_cells = [], grid_orientation_mean = [],
      grid_orientation_std = [], field_width = [], resolution = []\<rparr>"

text \<open>
  A configuration of the circle dataset with embedding dimensions 1, 0 and -3.
\<close>

definition unvalidated_circle_config :: "(int, int) default_config" where
  "unvalidated_circle_config =
     \<lparr>dataset_name = [''s1_synthetic''], expt_id = [], timestep_microsec = [], smooth = [],
      select_gain_1 = [], n_times = [1000], embedding_dim = [1, 0, - 3],
      geodesic_distortion_amp = [1], noise_var = [5],
      grid_scale = [], arena_dims = [], n_cells = [], grid_orientation_mean = [],
      grid_orientation_std = [], field_width = [], resolution = []\<rparr>"

text \<open>A merged configuration of a run on the experimental dataset.\<close>

definition example_sweep_config :: "real sweep_config" where
  "example_sweep_config =
     \<lparr>cfg_dataset_name = ''experimental'', cfg_sweep_name = ''experimental_34_gain_1'',
      posterior_type = ''hyperspherical'', latent_dim = 2, sftbeta = 45 / 10,
      encoder_width = 400, encoder_depth = 4, decoder_width = 400, decoder_depth = 4,
      drop_out_p = 0, device = ''cuda'', lr = 1 / 1000, scheduler = False,
      n_grid_points = 100\<rparr>"

text \<open>
  A loader whose data points have 40 entries, and two states of the random generators on
  a machine with CUDA.
\<close>

definition example_loader :: "(real, int) data_loader" where
  "example_loader = \<lparr>dataset = [(\<lparr>shape = [40], entries = []\<rparr>, 0)]\<rparr>"

definition rng_a :: rng where
  "rng_a = \<lparr>python_random = Gen 17 3, torch_cpu = Gen 5 100, torch_cuda = Some (Gen 1 1)\<rparr>"

definition rng_b :: rng where
  "rng_b = \<lparr>python_random = Gen 0 0, torch_cpu = Gen 99 2, torch_cuda = Some (Gen 7 7)\<rparr>"

text \<open>
  Integer stand-ins for the numpy and evaluation routines, a synthetic configuration, a
  dataset of 500 points in 40 dimensions and one label.
\<close>

definition example_numpy :: "int numpy" where
  "example_numpy =
     \<lparr>in_window = (\<lambda>z a. z = a),
      nanmean = (\<lambda>vs. if vs = [] then 0 else sum_list vs div int (length vs)),
      nanmedian = (\<lambda>vs. if vs = [] then 0 else sort vs ! (length vs div 2)),
      nanstd = (\<lambda>vs. 0),
      nanmin = (\<lambda>vs. fold min vs (hd vs)),
      nanmax = (\<lambda>vs. fold max vs (hd vs))\<rparr>"

definition example_evaluate :: "(unit, real run_config, int) evaluate" where
  "example_evaluate =
     \<lparr>compute_curvature_learned = (\<lambda>model config ed n. (Grid1 [0, 1], [0, 3], [5, 6])),
      compute_curvature_true = (\<lambda>config n. (Grid1 [0, 1], [0, 3], [5, 5]))\<rparr>"

definition example_synthetic_config :: "real sweep_config" where
  "example_synthetic_config =
     example_sweep_config\<lparr>cfg_dataset_name := ''s1_synthetic'',
       cfg_sweep_name := ''s1_synthetic_noise_var_5_embedding_dim_3''\<rparr>"

definition example_dataset :: "real tensor" where
  "example_dataset = \<lparr>shape = [500, 40], entries = []\<rparr>"

definition example_labels :: "int label_row list" where
  "example_labels = [\<lparr>angles = 0, velocities = 7\<rparr>]"

text \<open>
  Stand-ins for the estimation library (an estimator that adds up what it is fitted to,
  a point generator that depends on the generator state) and for scikit-learn.
\<close>

definition example_lib :: "(real, int, int, nat, real) estimation_lib" where
  "example_lib =
     \<lparr>dir_skdim_id = [''MLE'', ''_base'', ''TwoNN''],
      get_estimator = (\<lambda>name. if name \<in> set [''MLE'', ''TwoNN''] then Some 0 else None),
      fit = (\<lambda>e nm. e + of_int nm),
      mean_dimension = (\<lambda>e. e),
      get_point_generator =
        (\<lambda>name. if name \<in> set [''hypersphere'', ''hypertorus'']
                then Some (\<lambda>g dm n. (dm + int g, Suc g)) else None),
      synthetic_neural_manifold = (\<lambda>g points n pm rf. (2 * points, Suc g)),
      np_sqrt = sqrt\<rparr>"

definition example_args :: "real estimation_args" where
  "example_args =
     \<lparr>num_trials = 3, num_points = 100, num_neurons = 40, poisson_multiplier = 1,
      ref_frequency = 200\<rparr>"

definition example_sklearn :: "(int list, int list, int list, int, int, int, int) sklearn" where
  "example_sklearn =
     \<lparr>train_test_split = (\<lambda>X Y. (take 4 X, drop 4 X, take 4 Y, drop 4 Y)),
      fit_pls = (\<lambda>K X Y. K),
      transform_pls = (\<lambda>pls X. map (\<lambda>x. pls * x) X),
      fit_pca = (\<lambda>K X. K),
      transform_pca = (\<lambda>pca X. map (\<lambda>x. pca + x) X),
      fit_multi_output = (\<lambda>X Y. sum_list Y),
      predict = (\<lambda>reg X. map (\<lambda>x. reg + x) X),
      r2_score = (\<lambda>Y Y'. sum_list Y - sum_list Y')\<rparr>"

section \<open>Sweep names\<close>

lemma digit_char_inj: "a < 10 \<Longrightarrow> b < 10 \<Longrightarrow> digit_char a = digit_char b \<Longrightarrow> a = b"
  by (simp add: digit_char_def)

lemma digit_char_not_sep:
  "d < 10 \<Longrightarrow> digit_char d \<noteq> CHR ''_'' \<and> digit_char d \<noteq> CHR ''-''"
  by (auto simp add: digit_char_def char_of_eq_iff take_bit_eq_mod)

lemma str_nat_chars: "c \<in> set (str_nat n) \<Longrightarrow> \<exists>d<10. c = digit_char d"
proof (induction n rule: str_nat.induct)
  case (1 n)
  show ?case
  proof (cases "n < 10")
    case True
    with "1.prems" show ?thesis by (auto simp: str_nat.simps [of n])
  next
    case False
    with "1.prems" have "c \<in> set (str_nat (n div 10)) \<or> c = digit_char (n mod 10)"
      by (auto simp: str_nat.simps [of n])
    then show ?thesis
    proof
      assume "c \<in> set (str_nat (n div 10))"
      with "1.IH" False show ?thesis by simp
    next
      assume "c = digit_char (n mod 10)"
      moreover have "n mod 10 < 10" by simp
      ultimately show ?thesis by blast
    qed
  qed
qed

lemma str_nat_nonempty: "str_nat n \<noteq> []"
  by (subst str_nat.simps) simp

lemma str_nat_inj: "str_nat m = str_nat n \<Longrightarrow> m = n"
proof (induction m arbitrary: n rule: str_nat.induct)
  case (1 m)
  show ?case
  proof (cases "m < 10")
    case ms: True
    show ?thesis
    proof (cases "n < 10")
      case True
      with ms "1.prems" show ?thesis
        by (simp add: str_nat.simps [of m] str_nat.simps [of n] digit_char_inj)
    next
      case False
      with ms "1.prems" show ?thesis
        using str_nat_nonempty [of "n div 10"]
        by (simp add: str_nat.simps [of m] str_nat.simps [of n])
    qed
  next
    case ml: False
    show ?thesis
    proof (cases "n < 10")
      case True
      with ml "1.prems" show ?thesis
        using str_nat_nonempty [of "m div 10"]
        by (simp add: str_nat.simps [of m] str_nat.simps [of n])
    next
      case False
      with ml "1.prems" have e: "str_nat (m div 10) = str_nat (n div 10)"
        and d: "digit_char (m mod 10) = digit_char (n mod 10)"
        by (simp_all add: str_nat.simps [of m] str_nat.simps [of n])
      from "1.IH" [OF ml e] have "m div 10 = n div 10" .
      moreover from d have "m mod 10 = n mod 10"
        by (intro digit_char_inj) simp_all
      ultimately show ?thesis
        by (metis div_mult_mod_eq)
    qed
  qed
qed

lemma str_nat_no_sep:
  "c \<in> set (str_nat n) \<Longrightarrow> c \<noteq> CHR ''_'' \<and> c \<noteq> CHR ''-''"
proof -
  assume "c \<in> set (str_nat n)"
  then obtain d where "d < 10" "c = digit_char d" using str_nat_chars by blast
  then show ?thesis using digit_char_not_sep [of d] by simp
qed

lemma str_int_no_underscore: "CHR ''_'' \<notin> set (str_int i)"
proof (cases "i < 0")
  case True
  then show ?thesis
    using str_nat_no_sep [of "CHR ''_''" "nat (- i)"] by (auto simp: str_int_def)
next
  case False
  then show ?thesis
    using str_nat_no_sep [of "CHR ''_''" "nat i"] by (auto simp: str_int_def)
qed

lemma str_int_inj: "str_int i = str_int j \<Longrightarrow> i = j"
proof -
  assume a: "str_int i = str_int j"
  have nd: "hd (str_nat n) \<noteq> CHR ''-''" for n
    using str_nat_no_sep [of "hd (str_nat n)" n] str_nat_nonempty [of n] by simp
  show ?thesis
  proof (cases "i < 0")
    case True
    show ?thesis
    proof (cases "j < 0")
      case jn: True
      with True a have "nat (- i) = nat (- j)" by (simp add: str_int_def str_nat_inj)
      with True jn show ?thesis by simp
    next
      case False
      with True a have "CHR ''-'' # str_nat (nat (- i)) = str_nat (nat j)"
        by (simp add: str_int_def)
      then have "hd (str_nat (nat j)) = CHR ''-''" by (metis list.sel(1))
      with nd [of "nat j"] show ?thesis by simp
    qed
  next
    case False
    show ?thesis
    proof (cases "j < 0")
      case True
      with False a have "CHR ''-'' # str_nat (nat (- j)) = str_nat (nat i)"
        by (simp add: str_int_def)
      then have "hd (str_nat (nat i)) = CHR ''-''" by (metis list.sel(1))
      with nd [of "nat i"] show ?thesis by simp
    next
      case jp: False
      with False a have "nat i = nat j" by (simp add: str_int_def str_nat_inj)
      with False jp show ?thesis by simp
    qed
  qed
qed

lemma sep_suffix_unique:
  assumes "s \<notin> set d1" "s \<notin> set d2" "a @ s # d1 = b @ s # d2"
  shows "a = b \<and> d1 = d2"
  using assms
proof (induction a arbitrary: b)
  case Nil
  then show ?case by (cases b) auto
next
  case (Cons x a)
  then show ?case by (cases b) auto
qed

lemma int_field_unique:
  assumes "a @ sep @ CHR ''_'' # str_int i = b @ sep @ CHR ''_'' # str_int j"
  shows "a = b \<and> i = j"
proof -
  from assms have "(a @ sep) @ CHR ''_'' # str_int i = (b @ sep) @ CHR ''_'' # str_int j"
    by simp
  from sep_suffix_unique [OF str_int_no_underscore str_int_no_underscore this]
  show ?thesis using str_int_inj by auto
qed

lemma sweep_name_experimental_eq:
  "sweep_name_experimental dn (e1, t1, s1, g1) = sweep_name_experimental dn (e2, t2, s2, g2)
     \<longleftrightarrow> e1 = e2 \<and> g1 = g2"
proof -
  have diff: "x @ ''_gain_1'' \<noteq> y @ ''_other_gain''" for x y :: string
  proof
    assume "x @ ''_gain_1'' = y @ ''_other_gain''"
    then have "last (x @ ''_gain_1'') = last (y @ ''_other_gain'')" by simp
    then show False by simp
  qed
  show ?thesis
    using diff [of e1 e2] diff [of e2 e1]
    by (cases g1; cases g2) (auto simp: sweep_name_experimental_def)
qed

lemma sweep_name_synthetic_eq:
  "sweep_name_synthetic fmt dn (n1, d1, a1, v1) = sweep_name_synthetic fmt dn (n2, d2, a2, v2)
     \<longleftrightarrow> fmt v1 = fmt v2 \<and> d1 = d2"
proof
  assume "sweep_name_synthetic fmt dn (n1, d1, a1, v1)
            = sweep_name_synthetic fmt dn (n2, d2, a2, v2)"
  then have "(dn @ ''_noise_var_'') @ (fmt v1 @ ''_embedding_dim'' @ CHR ''_'' # str_int d1)
             = (dn @ ''_noise_var_'') @ (fmt v2 @ ''_embedding_dim'' @ CHR ''_'' # str_int d2)"
    by (simp add: sweep_name_synthetic_def)
  then have "fmt v1 @ ''_embedding_dim'' @ CHR ''_'' # str_int d1
             = fmt v2 @ ''_embedding_dim'' @ CHR ''_'' # str_int d2"
    by (simp only: same_append_eq)
  from int_field_unique [OF this] show "fmt v1 = fmt v2 \<and> d1 = d2" .
next
  assume "fmt v1 = fmt v2 \<and> d1 = d2"
  then show "sweep_name_synthetic fmt dn (n1, d1, a1, v1)
               = sweep_name_synthetic fmt dn (n2, d2, a2, v2)"
    by (simp add: sweep_name_synthetic_def)
qed

lemma sweep_name_grid_cells_eq:
  "sweep_name_grid_cells fmt dn (gs1, ad1, nc1, gom1, gos1, fw1, res1)
     = sweep_name_grid_cells fmt dn (gs2, ad2, nc2, gom2, gos2, fw2, res2)
     \<longleftrightarrow> fmt gos1 = fmt gos2 \<and> nc1 = nc2"
proof
  assume "sweep_name_grid_cells fmt dn (gs1, ad1, nc1, gom1, gos1, fw1, res1)
            = sweep_name_grid_cells fmt dn (gs2, ad2, nc2, gom2, gos2, fw2, res2)"
  then have "(dn @ ''_orientation_std_'') @ (fmt gos1 @ ''_ncells'' @ CHR ''_'' # str_int nc1)
             = (dn @ ''_orientation_std_'') @ (fmt gos2 @ ''_ncells'' @ CHR ''_'' # str_int nc2)"
    by (simp add: sweep_name_grid_cells_def)
  then have "fmt gos1 @ ''_ncells'' @ CHR ''_'' # str_int nc1
             = fmt gos2 @ ''_ncells'' @ CHR ''_'' # str_int nc2"
    by (simp only: same_append_eq)
  from int_field_unique [OF this] show "fmt gos1 = fmt gos2 \<and> nc1 = nc2" .
next
  assume "fmt gos1 = fmt gos2 \<and> nc1 = nc2"
  then show "sweep_name_grid_cells fmt dn (gs1, ad1, nc1, gom1, gos1, fw1, res1)
               = sweep_name_grid_cells fmt dn (gs2, ad2, nc2, gom2, gos2, fw2, res2)"
    by (simp add: sweep_name_grid_cells_def)
qed

lemma str_int_2: "str_int 2 = ''2''"
  by code_simp

lemma str_int_3: "str_int 3 = ''3''"
  by code_simp

lemma str_int_5: "str_int 5 = ''5''"
  by code_simp

text \<open>
  Claim C1, as the code has it. The sweep name is built from some of the enumerated
  parameters only. For a fixed dataset name, two experimental tuples get the same sweep
  name exactly when they agree on \<open>expt_id\<close> and \<open>select_gain_1\<close>; two synthetic tuples
  exactly when their \<open>noise_var\<close> is formatted alike and they agree on \<open>embedding_dim\<close>;
  two grid-cell tuples exactly when their \<open>grid_orientation_std\<close> is formatted alike and
  they agree on \<open>n_cells\<close>. The other parameters of a tuple do not enter the name.
\<close>

theorem sweep_name_injective_in_named_parameters:
  "(sweep_name_experimental dn (ea, ta, sa, ga) = sweep_name_experimental dn (eb, tb, sb, gb)
      \<longleftrightarrow> ea = eb \<and> ga = gb)
   \<and> (sweep_name_synthetic fmt dn (na, da, aa, va) = sweep_name_synthetic fmt dn (nb, db, ab, vb)
      \<longleftrightarrow> fmt va = fmt vb \<and> da = db)
   \<and> (sweep_name_grid_cells fmt dn (gsa, ada, nca, goma, gosa, fwa, resa)
        = sweep_name_grid_cells fmt dn (gsb, adb, ncb, gomb, gosb, fwb, resb)
      \<longleftrightarrow> fmt gosa = fmt gosb \<and> nca = ncb)"
  by (intro conjI sweep_name_experimental_eq sweep_name_synthetic_eq
      sweep_name_grid_cells_eq)

text \<open>
  The theorem at concrete tuples: two experimental tuples that differ in the time step
  and in smoothing share their name, two synthetic tuples that differ in the embedding
  dimension do not.
\<close>

theorem sweep_name_injective_in_named_parameters_witness:
  "sweep_name_experimental ''experimental'' (''34'', 1000000 :: int, True, True)
     = sweep_name_experimental ''experimental'' (''34'', 100000 :: int, False, True)
   \<and> sweep_name_synthetic str_int ''s1_synthetic'' (1000, 3, 1 :: int, 5)
     \<noteq> sweep_name_synthetic str_int ''s1_synthetic'' (1000, 2, 1 :: int, 5)"
proof -
  have "sweep_name_experimental ''experimental'' (''34'', 1000000 :: int, True, True)
      = sweep_name_experimental ''experimental'' (''34'', 100000 :: int, False, True)
      \<longleftrightarrow> ''34'' = ''34'' \<and> True = True"
    by (rule sweep_name_injective_in_named_parameters [THEN conjunct1])
  moreover have "sweep_name_synthetic str_int ''s1_synthetic'' (1000, 3, 1 :: int, 5)
      = sweep_name_synthetic str_int ''s1_synthetic'' (1000, 2, 1 :: int, 5)
      \<longleftrightarrow> str_int 5 = str_int 5 \<and> (3 :: int) = 2"
    by (rule sweep_name_injective_in_named_parameters [THEN conjunct2, THEN conjunct1])
  ultimately show ?thesis by simp
qed

text \<open>
  Claim C1 as stated fails: \<open>main\<close> enumerates two distinct experimental tuples, which
  differ in \<open>timestep_microsec\<close>, and passes the same sweep name to \<open>main_sweep\<close> for
  both.
\<close>

theorem sweep_name_collision_counterexample:
  "fst (main str_int colliding_config) =
     [\<lparr>call_sweep_name = ''experimental_34_gain_1'', call_dataset_name = ''experimental'',
       call_args = ExperimentalArgs ''34'' 1000000 True True\<rparr>,
      \<lparr>call_sweep_name = ''experimental_34_gain_1'', call_dataset_name = ''experimental'',
       call_args = ExperimentalArgs ''34'' 100000 True True\<rparr>]
   \<and> (''34'', 1000000 :: int, True, True) \<noteq> (''34'', 100000, True, True)"
  by (simp add: main_def colliding_config_def product4_def experimental_calls_def
      sweep_name_experimental_def)

section \<open>Run names and output paths\<close>

lemma os_path_join_relative:
  assumes "b \<noteq> []" "hd b \<noteq> CHR ''/''"
  shows "os_path_join a b = (if a = [] \<or> last a = CHR ''/'' then a else a @ ''/'') @ b"
  using assms by (simp add: os_path_join_def)

lemma make_run_name_relative:
  "make_run_name rid sn @ suffix \<noteq> [] \<and> hd (make_run_name rid sn @ suffix) \<noteq> CHR ''/''"
  by (simp add: make_run_name_def)

lemma run_path_eq:
  "os_path_join d (make_run_name ra sa @ suffix) = os_path_join d (make_run_name rb sb @ suffix)
     \<longleftrightarrow> make_run_name ra sa = make_run_name rb sb"
proof -
  have a: "os_path_join d (make_run_name ra sa @ suffix)
      = (if d = [] \<or> last d = CHR ''/'' then d else d @ ''/'') @ (make_run_name ra sa @ suffix)"
    using make_run_name_relative [of ra sa suffix] by (intro os_path_join_relative) simp_all
  have b: "os_path_join d (make_run_name rb sb @ suffix)
      = (if d = [] \<or> last d = CHR ''/'' then d else d @ ''/'') @ (make_run_name rb sb @ suffix)"
    using make_run_name_relative [of rb sb suffix] by (intro os_path_join_relative) simp_all
  show ?thesis unfolding a b by (simp only: same_append_eq append_same_eq)
qed

lemma first_sep_unique:
  assumes "s \<notin> set a" "s \<notin> set b" "a @ s # x = b @ s # y"
  shows "a = b \<and> x = y"
  using assms
proof (induction a arbitrary: b)
  case Nil
  then show ?case by (cases b) auto
next
  case (Cons c a)
  then show ?case by (cases b) auto
qed

lemma make_run_name_eq:
  assumes "CHR ''_'' \<notin> set ra" "CHR ''_'' \<notin> set rb"
  shows "make_run_name ra sa = make_run_name rb sb \<longleftrightarrow> ra = rb \<and> sa = sb"
proof
  assume "make_run_name ra sa = make_run_name rb sb"
  then have "ra @ CHR ''_'' # sa = rb @ CHR ''_'' # sb"
    by (simp add: make_run_name_def)
  from first_sep_unique [OF assms this] show "ra = rb \<and> sa = sb" .
next
  assume "ra = rb \<and> sa = sb"
  then show "make_run_name ra sa = make_run_name rb sb" by simp
qed

lemma main_run_config_names:
  "run_name (main_run_config rid sh c) = make_run_name rid (cfg_sweep_name c)"
  "results_prefix (main_run_config rid sh c) = make_run_name rid (cfg_sweep_name c)"
  by (simp_all add: main_run_config_def Let_def sweep_config.defs run_config.defs)

text \<open>
  Claim C2, as the code has it. The run name is \<open>"run_" + run id + "_" + sweep_name\<close>;
  the run id is assigned by the tracking service when the run starts, and \<open>main_run\<close>
  stores the name in the configuration as \<open>run_name\<close> and \<open>results_prefix\<close>. The JSON
  configuration path, the two model paths and the two curvature-profile CSV paths are
  functions of that name and of the output directory, and for a fixed directory two
  runs have the same path exactly when they have the same run name. When the run ids
  contain no underscore, two runs have the same name exactly when they have the same
  run id and the same sweep name.
\<close>

theorem run_name_and_paths_determined_by_run_id_and_sweep_name:
  fixes ca cb :: "'f sweep_config"
  assumes "ka = main_run_config ra sha ca" and "kb = main_run_config rb shb cb"
  shows "run_name ka = ''run_'' @ ra @ ''_'' @ cfg_sweep_name ca
    \<and> results_prefix ka = run_name ka
    \<and> (wandb_config_path d (run_name ka) = wandb_config_path d (run_name kb)
         \<longleftrightarrow> run_name ka = run_name kb)
    \<and> (model_path d ka = model_path d kb \<longleftrightarrow> run_name ka = run_name kb)
    \<and> (model_state_dict_path d ka = model_state_dict_path d kb \<longleftrightarrow> run_name ka = run_name kb)
    \<and> (curv_norm_learned_profile_path d ka = curv_norm_learned_profile_path d kb
         \<longleftrightarrow> run_name ka = run_name kb)
    \<and> (curv_norm_true_profile_path d ka = curv_norm_true_profile_path d kb
         \<longleftrightarrow> run_name ka = run_name kb)
    \<and> (CHR ''_'' \<notin> set ra \<and> CHR ''_'' \<notin> set rb \<longrightarrow>
         (run_name ka = run_name kb \<longleftrightarrow> ra = rb \<and> cfg_sweep_name ca = cfg_sweep_name cb))"
  unfolding assms wandb_config_path_def model_path_def model_state_dict_path_def
    curv_norm_learned_profile_path_def curv_norm_true_profile_path_def main_run_config_names
  by (intro conjI impI run_path_eq make_run_name_eq) (simp_all add: make_run_name_def)

text \<open>
  The theorem at two runs of one configuration with different run ids: the model paths
  differ, and the run name is the expected string.
\<close>

theorem run_name_and_paths_determined_by_run_id_and_sweep_name_witness:
  "model_path ''models'' (main_run_config ''k3x9a2bq'' (500, 40) example_sweep_config)
     \<noteq> model_path ''models'' (main_run_config ''p07dm4zz'' (500, 40) example_sweep_config)
   \<and> run_name (main_run_config ''k3x9a2bq'' (500, 40) example_sweep_config)
     = ''run_k3x9a2bq_experimental_34_gain_1''"
proof -
  note t = run_name_and_paths_determined_by_run_id_and_sweep_name
    [where ra = "''k3x9a2bq''" and sha = "(500, 40)" and ca = example_sweep_config
       and rb = "''p07dm4zz''" and shb = "(500, 40)" and cb = example_sweep_config
       and d = "''models''", OF refl refl]
  note n = t [THEN conjunct1]
  note m = t [THEN conjunct2, THEN conjunct2, THEN conjunct2, THEN conjunct1]
  note u = t [THEN conjunct2, THEN conjunct2, THEN conjunct2, THEN conjunct2, THEN conjunct2,
    THEN conjunct2, THEN conjunct2]
  have "run_name (main_run_config ''k3x9a2bq'' (500, 40) example_sweep_config)
      \<noteq> run_name (main_run_config ''p07dm4zz'' (500, 40) example_sweep_config)"
    using u by simp
  with m have "model_path ''models'' (main_run_config ''k3x9a2bq'' (500, 40) example_sweep_config)
     \<noteq> model_path ''models'' (main_run_config ''p07dm4zz'' (500, 40) example_sweep_config)"
    by simp
  moreover from n have "run_name (main_run_config ''k3x9a2bq'' (500, 40) example_sweep_config)
     = ''run_k3x9a2bq_experimental_34_gain_1''"
    by (simp add: example_sweep_config_def)
  ultimately show ?thesis by (rule conjI)
qed

text \<open>
  Claim C2 as stated fails. The same merged configuration, run twice, gets two different
  run names and two different JSON paths, because the run id is not part of it. And two
  configurations that differ in the learning rate, under one run id, get the same run
  name and the same model path, because the paths read nothing of the configuration but
  \<open>results_prefix\<close>.
\<close>

theorem run_name_not_function_of_config_counterexample:
  "run_name (main_run_config ''k3x9a2bq'' (500, 40) example_sweep_config)
     \<noteq> run_name (main_run_config ''p07dm4zz'' (500, 40) example_sweep_config)
   \<and> wandb_config_path ''configs''
        (run_name (main_run_config ''k3x9a2bq'' (500, 40) example_sweep_config))
     \<noteq> wandb_config_path ''configs''
        (run_name (main_run_config ''p07dm4zz'' (500, 40) example_sweep_config))
   \<and> main_run_config ''k3x9a2bq'' (500, 40) example_sweep_config
     \<noteq> main_run_config ''k3x9a2bq'' (500, 40) (example_sweep_config\<lparr>lr := 1 / 100\<rparr>)
   \<and> model_path ''models'' (main_run_config ''k3x9a2bq'' (500, 40) example_sweep_config)
     = model_path ''models''
         (main_run_config ''k3x9a2bq'' (500, 40) (example_sweep_config\<lparr>lr := 1 / 100\<rparr>))"
proof -
  have "lr (main_run_config ''k3x9a2bq'' (500, 40) example_sweep_config)
      \<noteq> lr (main_run_config ''k3x9a2bq'' (500, 40) (example_sweep_config\<lparr>lr := 1 / 100\<rparr>))"
    by (simp add: main_run_config_def Let_def sweep_config.defs example_sweep_config_def)
  then have "main_run_config ''k3x9a2bq'' (500, 40) example_sweep_config
     \<noteq> main_run_config ''k3x9a2bq'' (500, 40) (example_sweep_config\<lparr>lr := 1 / 100\<rparr>)"
    by metis
  then show ?thesis
    by (simp add: main_run_config_names make_run_name_def wandb_config_path_def
        model_path_def os_path_join_def)
qed

section \<open>The validation in main\<close>

lemma first_rejection_None: "first_rejection cs = None \<longleftrightarrow> (\<forall>c \<in> set cs. call_accepted c)"
proof
  assume n: "first_rejection cs = None"
  show "\<forall>c \<in> set cs. call_accepted c"
  proof (cases "dropWhile call_accepted cs")
    case Nil
    then show ?thesis by (simp add: dropWhile_eq_Nil_conv)
  next
    case (Cons c rest)
    then have "\<not> call_accepted c" by (metis hd_dropWhile list.sel(1) list.distinct(1))
    with n Cons show ?thesis
      by (auto simp: first_rejection_def call_accepted_def split: sweep_args.splits)
  qed
next
  assume "\<forall>c \<in> set cs. call_accepted c"
  then have "dropWhile call_accepted cs = []" by simp
  then show "first_rejection cs = None" by (simp only: first_rejection_def list.case)
qed

lemma first_rejection_append_accepted:
  assumes "\<forall>c \<in> set xs. call_accepted c"
  shows "first_rejection (xs @ ys) = first_rejection ys"
proof -
  from assms have "dropWhile call_accepted (xs @ ys) = dropWhile call_accepted ys"
    by (simp add: dropWhile_append2)
  then show ?thesis by (simp only: first_rejection_def)
qed

lemma first_rejection_append_rejected:
  assumes "\<not> (\<forall>c \<in> set xs. call_accepted c)"
  shows "first_rejection (xs @ ys) = first_rejection xs"
proof -
  from assms obtain x where x: "x \<in> set xs" "\<not> call_accepted x" by blast
  then have d: "dropWhile call_accepted (xs @ ys) = dropWhile call_accepted xs @ ys"
    by (simp add: dropWhile_append1)
  from x have "dropWhile call_accepted xs \<noteq> []" by (auto simp: dropWhile_eq_Nil_conv)
  then obtain c rest where "dropWhile call_accepted xs = c # rest"
    by (cases "dropWhile call_accepted xs") auto
  with d show ?thesis by (simp add: first_rejection_def)
qed

lemma takeWhile_append_accepted:
  assumes "\<forall>c \<in> set xs. call_accepted c"
  shows "takeWhile call_accepted (xs @ ys) = xs @ takeWhile call_accepted ys"
  using assms by (simp add: takeWhile_append2)

lemma takeWhile_append_rejected:
  assumes "\<not> (\<forall>c \<in> set xs. call_accepted c)"
  shows "takeWhile call_accepted (xs @ ys) = takeWhile call_accepted xs"
proof -
  from assms obtain x where x: "x \<in> set xs" "\<not> call_accepted x" by blast
  then show ?thesis by (simp add: takeWhile_append1)
qed

lemma main_loop_step_accepted:
  assumes ih: "\<And>launched. main_loop fmt cfg dns launched =
       (launched @ takeWhile call_accepted (concat (map (enumerated_calls fmt cfg) dns)),
        first_rejection (concat (map (enumerated_calls fmt cfg) dns)))"
    and ml: "main_loop fmt cfg (dn # dns) launched =
       main_loop fmt cfg dns (launched @ enumerated_calls fmt cfg dn)"
    and acc: "\<forall>c \<in> set (enumerated_calls fmt cfg dn). call_accepted c"
  shows "main_loop fmt cfg (dn # dns) launched =
       (launched @ takeWhile call_accepted (concat (map (enumerated_calls fmt cfg) (dn # dns))),
        first_rejection (concat (map (enumerated_calls fmt cfg) (dn # dns))))"
  unfolding ml ih
  by (simp add: takeWhile_append_accepted [OF acc] first_rejection_append_accepted [OF acc])

lemma synthetic_loop_eq:
  "synthetic_loop fmt dn ts launched =
     (launched @ takeWhile call_accepted (synthetic_calls fmt dn ts),
      first_rejection (synthetic_calls fmt dn ts))"
proof (induction ts arbitrary: launched)
  case Nil
  show ?case by (simp add: synthetic_calls_def first_rejection_def)
next
  case (Cons t ts)
  obtain nt ed amp nv where t: "t = (nt, ed, amp, nv)" by (cases t) auto
  show ?case
  proof (cases "embedding_too_small dn ed")
    case True
    then show ?thesis
      by (simp add: t synthetic_calls_def first_rejection_def call_accepted_def)
  next
    case False
    then show ?thesis
      using Cons.IH [of "launched @ [\<lparr>call_sweep_name = sweep_name_synthetic fmt dn (nt, ed, amp, nv),
               call_dataset_name = dn, call_args = SyntheticArgs nt ed amp nv\<rparr>]"]
      by (simp add: t synthetic_calls_def first_rejection_def call_accepted_def)
  qed
qed

lemma experimental_calls_accepted: "\<forall>c \<in> set (experimental_calls dn ts). call_accepted c"
  by (auto simp: experimental_calls_def call_accepted_def)

lemma grid_cells_calls_accepted: "\<forall>c \<in> set (grid_cells_calls fmt dn ts). call_accepted c"
  by (auto simp: grid_cells_calls_def call_accepted_def)

lemma main_loop_eq:
  fixes launched :: "('f, 'a) sweep_call list"
  shows "main_loop fmt cfg dns launched =
     (launched @ takeWhile call_accepted (concat (map (enumerated_calls fmt cfg) dns)),
      first_rejection (concat (map (enumerated_calls fmt cfg) dns)))"
proof (induction dns arbitrary: launched)
  case Nil
  show ?case by (simp add: first_rejection_def)
next
  case (Cons dn dns)
  consider (e) "dn = ''experimental''"
    | (s) "dn \<noteq> ''experimental''" "dn \<in> set [''s1_synthetic'', ''s2_synthetic'', ''t2_synthetic'']"
    | (g) "dn \<noteq> ''experimental''" "dn \<notin> set [''s1_synthetic'', ''s2_synthetic'', ''t2_synthetic'']"
          "dn = ''grid_cells''"
    | (t) "dn \<noteq> ''experimental''" "dn \<notin> set [''s1_synthetic'', ''s2_synthetic'', ''t2_synthetic'']"
          "dn \<noteq> ''grid_cells''" "dn = ''three_place_cells_synthetic''"
    | (o) "dn \<noteq> ''experimental''" "dn \<notin> set [''s1_synthetic'', ''s2_synthetic'', ''t2_synthetic'']"
          "dn \<noteq> ''grid_cells''" "dn \<noteq> ''three_place_cells_synthetic''"
    by blast
  then show ?case
  proof cases
    case e
    have ml: "main_loop fmt cfg (dn # dns) launched =
        main_loop fmt cfg dns (launched @ enumerated_calls fmt cfg dn)"
      using e by (simp add: enumerated_calls_def)
    have acc: "\<forall>c \<in> set (enumerated_calls fmt cfg dn). call_accepted c"
      using e experimental_calls_accepted by (simp add: enumerated_calls_def)
    show ?thesis by (rule main_loop_step_accepted [OF Cons.IH ml acc])
  next
    case s
    define ts where
      "ts = product4 (n_times cfg) (embedding_dim cfg) (geodesic_distortion_amp cfg) (noise_var cfg)"
    define cs :: "('f, 'a) sweep_call list" where "cs = synthetic_calls fmt dn ts"
    have en: "enumerated_calls fmt cfg dn = cs"
      using s by (simp add: enumerated_calls_def ts_def cs_def)
    have sl: "synthetic_loop fmt dn ts launched =
        (launched @ takeWhile call_accepted cs, first_rejection cs)"
      unfolding cs_def by (rule synthetic_loop_eq)
    have ml: "main_loop fmt cfg (dn # dns) launched =
        (case synthetic_loop fmt dn ts launched of
           (launched', Some e) \<Rightarrow> (launched', Some e)
         | (launched', None) \<Rightarrow> main_loop fmt cfg dns launched')"
      using s by (simp add: ts_def)
    show ?thesis
    proof (cases "first_rejection cs")
      case None
      then have acc: "\<forall>c \<in> set cs. call_accepted c"
        by (simp add: first_rejection_None)
      then have tw: "takeWhile call_accepted cs = cs"
        by (simp add: takeWhile_eq_all_conv)
      show ?thesis
        unfolding ml sl
        by (simp add: None tw Cons.IH en takeWhile_append_accepted [OF acc]
            first_rejection_append_accepted [OF acc])
    next
      case (Some err)
      then have nacc: "\<not> (\<forall>c \<in> set cs. call_accepted c)"
        using first_rejection_None [of cs] by simp
      show ?thesis
        unfolding ml sl
        by (simp add: Some en takeWhile_append_rejected [OF nacc]
            first_rejection_append_rejected [OF nacc])
    qed
  next
    case g
    have ml: "main_loop fmt cfg (dn # dns) launched =
        main_loop fmt cfg dns (launched @ enumerated_calls fmt cfg dn)"
      using g by (simp add: enumerated_calls_def)
    have acc: "\<forall>c \<in> set (enumerated_calls fmt cfg dn). call_accepted c"
      using g grid_cells_calls_accepted by (simp add: enumerated_calls_def)
    show ?thesis by (rule main_loop_step_accepted [OF Cons.IH ml acc])
  next
    case t
    have ml: "main_loop fmt cfg (dn # dns) launched =
        main_loop fmt cfg dns (launched @ enumerated_calls fmt cfg dn)"
      using t by (simp add: enumerated_calls_def)
    have acc: "\<forall>c \<in> set (enumerated_calls fmt cfg dn). call_accepted c"
      using t by (simp add: enumerated_calls_def call_accepted_def)
    show ?thesis by (rule main_loop_step_accepted [OF Cons.IH ml acc])
  next
    case o
    have ml: "main_loop fmt cfg (dn # dns) launched =
        main_loop fmt cfg dns (launched @ enumerated_calls fmt cfg dn)"
      using o by (simp add: enumerated_calls_def)
    have acc: "\<forall>c \<in> set (enumerated_calls fmt cfg dn). call_accepted c"
      using o by (simp add: enumerated_calls_def)
    show ?thesis by (rule main_loop_step_accepted [OF Cons.IH ml acc])
  qed
qed

lemma embedding_too_small_spec:
  "embedding_too_small dn ed \<longleftrightarrow>
     dn \<in> {''s2_synthetic'', ''t2_synthetic''} \<and> spec_too_small dn ed"
  by (auto simp: embedding_too_small_def spec_too_small_def spec_min_embedding_dim_def)

lemma call_accepted_spec:
  "call_accepted c \<longleftrightarrow>
     (\<forall>nt ed amp nv. call_args c = SyntheticArgs nt ed amp nv \<longrightarrow>
        \<not> (call_dataset_name c \<in> {''s2_synthetic'', ''t2_synthetic''}
           \<and> spec_too_small (call_dataset_name c) ed))"
  by (cases "call_args c") (simp_all add: call_accepted_def embedding_too_small_spec)

lemma first_rejection_Some:
  assumes "first_rejection cs = Some e"
  shows "\<exists>ed. ed \<le> 2 \<and> e = embedding_error ed"
proof (cases "dropWhile call_accepted cs")
  case Nil
  with assms show ?thesis by (simp add: first_rejection_def)
next
  case (Cons c rest)
  then have na: "\<not> call_accepted c" by (metis hd_dropWhile list.sel(1) list.distinct(1))
  then obtain nt ed amp nv where a: "call_args c = SyntheticArgs nt ed amp nv"
    and t: "embedding_too_small (call_dataset_name c) ed"
    by (cases "call_args c") (auto simp: call_accepted_def)
  from assms Cons a have "e = embedding_error ed" by (simp add: first_rejection_def)
  moreover from t have "ed \<le> 2" by (simp add: embedding_too_small_def)
  ultimately show ?thesis by blast
qed

text \<open>
  Claim C3, as the code has it. The one validation of \<open>main\<close> covers the datasets
  \<open>s2_synthetic\<close> and \<open>t2_synthetic\<close> only: there its guard rejects exactly the embedding
  dimensions that are too small for the manifold (at most 2). \<open>main\<close> launches the
  enumerated sweeps in order up to the first configuration that the guard rejects and
  ends there with the error of that configuration: no sweep is launched for it or for
  anything enumerated after it. It ends without an error exactly when the guard rejects
  no enumerated configuration; every sweep it launched was accepted by the guard; and an
  error it ends with is the error of the guard, for a dimension of at most 2. The
  dataset \<open>s1_synthetic\<close> is not validated.
\<close>

theorem main_validates_sphere_and_torus_only:
  "main fmt cfg =
     (takeWhile call_accepted (all_enumerated_calls fmt cfg),
      first_rejection (all_enumerated_calls fmt cfg))
   \<and> (snd (main fmt cfg) = None \<longleftrightarrow> (\<forall>c \<in> set (all_enumerated_calls fmt cfg). call_accepted c))
   \<and> (\<forall>c \<in> set (fst (main fmt cfg)). call_accepted c)
   \<and> (\<forall>e. snd (main fmt cfg) = Some e \<longrightarrow> (\<exists>ed. ed \<le> 2 \<and> e = embedding_error ed))
   \<and> (call_accepted c \<longleftrightarrow>
        (\<forall>nt ed amp nv. call_args c = SyntheticArgs nt ed amp nv \<longrightarrow>
           \<not> (call_dataset_name c \<in> {''s2_synthetic'', ''t2_synthetic''}
              \<and> spec_too_small (call_dataset_name c) ed)))
   \<and> (embedding_too_small dn d \<longleftrightarrow>
        dn \<in> {''s2_synthetic'', ''t2_synthetic''} \<and> spec_too_small dn d)"
proof -
  have m: "main fmt cfg =
     (takeWhile call_accepted (all_enumerated_calls fmt cfg),
      first_rejection (all_enumerated_calls fmt cfg))"
    by (simp add: main_def all_enumerated_calls_def main_loop_eq)
  have a: "\<forall>c \<in> set (takeWhile call_accepted (all_enumerated_calls fmt cfg)). call_accepted c"
    by (auto dest: set_takeWhileD)
  have n: "snd (main fmt cfg) = None \<longleftrightarrow> (\<forall>c \<in> set (all_enumerated_calls fmt cfg). call_accepted c)"
    by (simp add: m first_rejection_None)
  have e: "\<forall>e. snd (main fmt cfg) = Some e \<longrightarrow> (\<exists>ed. ed \<le> 2 \<and> e = embedding_error ed)"
    by (simp add: m first_rejection_Some)
  from a have a': "\<forall>c \<in> set (fst (main fmt cfg)). call_accepted c" by (simp add: m)
  show ?thesis
    by (intro conjI m n a' e call_accepted_spec embedding_too_small_spec)
qed

text \<open>
  The theorem at a configuration whose second synthetic tuple is rejected: one sweep is
  launched, the error names the dimension 2, which is too small for the sphere, and the
  experimental dataset that follows is never reached.
\<close>

theorem main_validates_sphere_and_torus_only_witness:
  "main str_int rejecting_config =
     ([\<lparr>call_sweep_name = ''s2_synthetic_noise_var_5_embedding_dim_3'',
        call_dataset_name = ''s2_synthetic'', call_args = SyntheticArgs 1000 3 1 5\<rparr>],
      Some (ValueError ''Manifold cannot be embedded in 2 dimensions''))
   \<and> \<not> call_accepted
         \<lparr>call_sweep_name = ''s2_synthetic_noise_var_5_embedding_dim_2'',
          call_dataset_name = ''s2_synthetic'',
          call_args = SyntheticArgs 1000 2 (1 :: int) (5 :: int)\<rparr>
   \<and> spec_too_small ''s2_synthetic'' 2"
proof -
  note t = main_validates_sphere_and_torus_only [of str_int rejecting_config
      "\<lparr>call_sweep_name = ''s2_synthetic_noise_var_5_embedding_dim_2'',
        call_dataset_name = ''s2_synthetic'',
        call_args = SyntheticArgs 1000 2 (1 :: int) (5 :: int)\<rparr>" "''s2_synthetic''" 2]
  have "main str_int rejecting_config =
     ([\<lparr>call_sweep_name = ''s2_synthetic_noise_var_5_embedding_dim_3'',
        call_dataset_name = ''s2_synthetic'', call_args = SyntheticArgs 1000 3 1 5\<rparr>],
      Some (ValueError ''Manifold cannot be embedded in 2 dimensions''))"
    using t [THEN conjunct1]
    by (simp add: all_enumerated_calls_def enumerated_calls_def rejecting_config_def
      product4_def synthetic_calls_def experimental_calls_def call_accepted_def
      embedding_too_small_def first_rejection_def embedding_error_def
      sweep_name_synthetic_def sweep_name_experimental_def str_int_2 str_int_3 str_int_5)
  moreover have s: "spec_too_small ''s2_synthetic'' 2"
    by (simp add: spec_too_small_def spec_min_embedding_dim_def)
  moreover have "\<not> call_accepted
         \<lparr>call_sweep_name = ''s2_synthetic_noise_var_5_embedding_dim_2'',
          call_dataset_name = ''s2_synthetic'',
          call_args = SyntheticArgs 1000 2 (1 :: int) (5 :: int)\<rparr>"
    using t [THEN conjunct2, THEN conjunct2, THEN conjunct2, THEN conjunct2, THEN conjunct1] s
    by simp
  ultimately show ?thesis by blast
qed

text \<open>
  Claim C3 as stated fails: for the circle dataset with the embedding dimensions 1, 0
  and -3, each too small for a circle, \<open>main\<close> launches all three sweeps and ends
  without an error.
\<close>

theorem circle_never_validated_counterexample:
  "snd (main str_int unvalidated_circle_config) = None
   \<and> map call_dataset_name (fst (main str_int unvalidated_circle_config))
       = [''s1_synthetic'', ''s1_synthetic'', ''s1_synthetic'']
   \<and> map call_args (fst (main str_int unvalidated_circle_config))
       = [SyntheticArgs 1000 1 1 5, SyntheticArgs 1000 0 1 5, SyntheticArgs 1000 (- 3) 1 5]
   \<and> spec_too_small ''s1_synthetic'' 1
   \<and> spec_too_small ''s1_synthetic'' 0
   \<and> spec_too_small ''s1_synthetic'' (- 3)"
  by (simp add: main_def unvalidated_circle_config_def product4_def embedding_too_small_def
      spec_too_small_def spec_min_embedding_dim_def)

section \<open>Model selection and seeding\<close>

lemma create_model_class:
  "map_option vae_class (create_model r config dd) = spec_class_of_tag (posterior_type config)"
  by (simp add: create_model_def spec_class_of_tag_def construct_def)

lemma spec_class_of_tag_Some:
  "tag \<in> set [''gaussian'', ''hyperspherical'', ''toroidal'', ''klein_bottle'']
     \<longleftrightarrow> spec_class_of_tag tag \<noteq> None"
  by (simp add: spec_class_of_tag_def)

text \<open>
  Claim C4. When the first data point of the training loader gives the data dimension
  and \<open>posterior_type\<close> is one of the four tags, \<open>create_model_and_train_test\<close> builds a
  model of the class the tag names (\<open>NeuralVAE\<close> for \<open>gaussian\<close> and \<open>hyperspherical\<close>,
  \<open>ToroidalVAE\<close> for \<open>toroidal\<close>, \<open>KleinBottleVAE\<close> for \<open>klein_bottle\<close>), an Adam
  optimizer over that model with the configured learning rate and \<open>amsgrad\<close>, a
  \<open>ReduceLROnPlateau\<close> scheduler exactly when \<open>config.scheduler\<close> is true, and returns
  what \<open>train_test\<close> returns on them, unchanged.
\<close>

theorem create_model_and_train_test_dispatch:
  assumes "first_data_dim train_loader = Inr dd"
    and "posterior_type config \<in> set [''gaussian'', ''hyperspherical'', ''toroidal'', ''klein_bottle'']"
  shows "\<exists>model.
      create_model r config dd = Some model
    \<and> spec_class_of_tag (posterior_type config) = Some (vae_class model)
    \<and> create_model_and_train_test train_test r config train_loader test_loader =
        Inr (train_test
          \<lparr>tt_model = model, tt_train_loader = train_loader, tt_test_loader = test_loader,
           tt_optimizer = \<lparr>adam_params = model, adam_lr = lr config, adam_amsgrad = True\<rparr>,
           tt_scheduler =
             (if scheduler config
              then Some \<lparr>sched_optimizer =
                           \<lparr>adam_params = model, adam_lr = lr config, adam_amsgrad = True\<rparr>,
                         sched_mode = ''min'', sched_factor = 1 / 2\<rparr>
              else None),
           tt_config = config\<rparr>)"
proof -
  from assms(2) have "spec_class_of_tag (posterior_type config) \<noteq> None"
    using spec_class_of_tag_Some [of "posterior_type config"] by blast
  then have "create_model r config dd \<noteq> None"
    using create_model_class [of r config dd] by (cases "create_model r config dd") simp_all
  then obtain model where m: "create_model r config dd = Some model" by blast
  then have c: "spec_class_of_tag (posterior_type config) = Some (vae_class model)"
    using create_model_class [of r config dd] by simp
  show ?thesis
    using m c assms(1) by (simp add: create_model_and_train_test_def Let_def)
qed

text \<open>
  The theorem at the example configuration, whose tag is \<open>hyperspherical\<close> and whose
  scheduler is off.
\<close>

theorem create_model_and_train_test_dispatch_witness:
  "map_sum id (\<lambda>a. (vae_class (tt_model a), adam_params (tt_optimizer a) = tt_model a,
                     tt_scheduler a))
     (create_model_and_train_test (\<lambda>a. a) rng_a example_sweep_config example_loader
        example_loader)
   = Inr (NeuralVAE, True, None)"
proof -
  have d: "first_data_dim example_loader = Inr 40"
    by (simp add: first_data_dim_def example_loader_def)
  have t: "posterior_type example_sweep_config
      \<in> set [''gaussian'', ''hyperspherical'', ''toroidal'', ''klein_bottle'']"
    by (simp add: example_sweep_config_def)
  from create_model_and_train_test_dispatch [OF d t, of rng_a "\<lambda>a. a" example_loader]
  obtain model where
    c: "spec_class_of_tag (posterior_type example_sweep_config) = Some (vae_class model)"
    and r: "create_model_and_train_test (\<lambda>a. a) rng_a example_sweep_config example_loader
        example_loader =
        Inr \<lparr>tt_model = model, tt_train_loader = example_loader, tt_test_loader = example_loader,
           tt_optimizer = \<lparr>adam_params = model, adam_lr = lr example_sweep_config,
                           adam_amsgrad = True\<rparr>,
           tt_scheduler =
             (if scheduler example_sweep_config
              then Some \<lparr>sched_optimizer =
                           \<lparr>adam_params = model, adam_lr = lr example_sweep_config,
                            adam_amsgrad = True\<rparr>,
                         sched_mode = ''min'', sched_factor = 1 / 2\<rparr>
              else None),
           tt_config = example_sweep_config\<rparr>"
    by blast
  from c have "vae_class model = NeuralVAE"
    by (simp add: spec_class_of_tag_def example_sweep_config_def)
  with r show ?thesis by (simp add: example_sweep_config_def)
qed

lemma seed_all_eq:
  "seed_all r =
     \<lparr>python_random = Gen 0 0, torch_cpu = Gen 0 0,
      torch_cuda = (if cuda_is_available r then Some (Gen 0 0) else None)\<rparr>"
  by (cases r) (simp add: seed_all_def cuda_is_available_def Let_def)

lemma create_model_init_rng:
  "create_model r config dd = Some model \<Longrightarrow> vae_init_rng model = seed_all r"
  by (auto simp: create_model_def construct_def split: if_splits)

text \<open>
  Claim C5. Two calls with the same configuration and data dimension, started from any
  two states of the random generators on machines that agree on whether CUDA is
  available, construct the same model and return the same result: in every branch the
  generators are reseeded with 0 (the CUDA ones when available) before the constructor
  runs.
\<close>

theorem model_instantiation_deterministic:
  assumes "cuda_is_available ra = cuda_is_available rb"
  shows "create_model ra config dd = create_model rb config dd
    \<and> create_model_and_train_test train_test ra config train_loader test_loader
        = create_model_and_train_test train_test rb config train_loader test_loader
    \<and> (\<forall>model. create_model ra config dd = Some model \<longrightarrow>
          python_random (vae_init_rng model) = Gen 0 0
        \<and> torch_cpu (vae_init_rng model) = Gen 0 0
        \<and> (cuda_is_available ra \<longrightarrow> torch_cuda (vae_init_rng model) = Some (Gen 0 0)))"
proof -
  from assms have s: "seed_all ra = seed_all rb" by (simp add: seed_all_eq)
  then have c: "create_model ra config dd = create_model rb config dd" for dd
    by (simp add: create_model_def)
  have "create_model_and_train_test train_test ra config train_loader test_loader
        = create_model_and_train_test train_test rb config train_loader test_loader"
    by (simp add: create_model_and_train_test_def c split: sum.splits)
  moreover have "python_random (vae_init_rng model) = Gen 0 0
        \<and> torch_cpu (vae_init_rng model) = Gen 0 0
        \<and> (cuda_is_available ra \<longrightarrow> torch_cuda (vae_init_rng model) = Some (Gen 0 0))"
    if "create_model ra config dd = Some model" for model
    using create_model_init_rng [OF that] by (simp add: seed_all_eq)
  ultimately show ?thesis using c by blast
qed

text \<open>
  The theorem at two different generator states.
\<close>

theorem model_instantiation_deterministic_witness:
  "rng_a \<noteq> rng_b
   \<and> create_model rng_a example_sweep_config 40 = create_model rng_b example_sweep_config 40
   \<and> create_model rng_a example_sweep_config 40 \<noteq> None"
proof -
  have "cuda_is_available rng_a = cuda_is_available rng_b"
    by (simp add: cuda_is_available_def rng_a_def rng_b_def)
  from model_instantiation_deterministic [OF this, of example_sweep_config 40]
  have "create_model rng_a example_sweep_config 40 = create_model rng_b example_sweep_config 40"
    by (rule conjunct1)
  moreover have "rng_a \<noteq> rng_b" by (simp add: rng_a_def rng_b_def)
  moreover have "create_model rng_a example_sweep_config 40 \<noteq> None"
    by (simp add: create_model_def example_sweep_config_def)
  ultimately show ?thesis by blast
qed

text \<open>
  Claim C8. When \<open>posterior_type\<close> is none of the four tags (and the training loader
  gives a data dimension), no branch assigns \<open>model\<close> and the function ends with the
  unbound-name error raised where the optimizer reads \<open>model\<close>.
\<close>

theorem unknown_posterior_type_unbound_model:
  assumes "posterior_type config \<notin> set [''gaussian'', ''hyperspherical'', ''toroidal'', ''klein_bottle'']"
    and "first_data_dim train_loader = Inr dd"
  shows "create_model r config dd = None
    \<and> create_model_and_train_test train_test r config train_loader test_loader
        = Inl (UnboundLocalError ''model'')"
  using assms by (simp add: create_model_and_train_test_def create_model_def)

text \<open>
  The theorem at a configuration with the tag \<open>poisson\<close>.
\<close>

theorem unknown_posterior_type_unbound_model_witness:
  "create_model_and_train_test (\<lambda>a. a) rng_a
     (example_sweep_config\<lparr>posterior_type := ''poisson''\<rparr>) example_loader example_loader
   = Inl (UnboundLocalError ''model'')"
proof -
  have t: "posterior_type (example_sweep_config\<lparr>posterior_type := ''poisson''\<rparr>)
      \<notin> set [''gaussian'', ''hyperspherical'', ''toroidal'', ''klein_bottle'']"
    by simp
  have d: "first_data_dim example_loader = Inr 40"
    by (simp add: first_data_dim_def example_loader_def)
  from unknown_posterior_type_unbound_model [OF t d] show ?thesis by (rule conjunct2)
qed

section \<open>Curvature profiles\<close>

lemma index_of_None: "index_of k (map fst cols) = None \<Longrightarrow> map_of cols k = None"
  by (induction cols) (auto split: if_splits)

lemma index_of_Some:
  "index_of k (map fst cols) = Some j \<Longrightarrow> j < length cols \<and> map_of cols k = Some (snd (cols ! j))"
proof (induction cols arbitrary: j)
  case Nil
  then show ?case by simp
next
  case (Cons c cols)
  show ?case
  proof (cases "fst c = k")
    case True
    with Cons.prems show ?thesis by (cases c) auto
  next
    case False
    with Cons.prems obtain j' where j: "index_of k (map fst cols) = Some j'" "j = Suc j'"
      by auto
    from Cons.IH [OF j(1)] False j(2) show ?thesis by (cases c) auto
  qed
qed

lemma csv_column_to_csv:
  assumes "df_well_formed df"
  shows "csv_column (to_csv df) k = map_of (df_columns df) k"
proof (cases "index_of k (map fst (df_columns df))")
  case None
  then show ?thesis
    by (simp add: csv_column_def to_csv_def index_of_None)
next
  case (Some j)
  from index_of_Some [OF Some]
  have j: "j < length (df_columns df)"
    and m: "map_of (df_columns df) k = Some (snd (df_columns df ! j))" by simp_all
  from assms j have len: "length (snd (df_columns df ! j)) = length (df_index df)"
    by (simp add: df_well_formed_def)
  have "map (\<lambda>(i, cells). cells ! j)
          (map (\<lambda>i. (df_index df ! i, map (\<lambda>(k, col). col ! i) (df_columns df)))
             [0..<length (df_index df)])
        = map (\<lambda>i. snd (df_columns df ! j) ! i) [0..<length (df_index df)]"
    using j by (simp add: case_prod_beta)
  also have "\<dots> = snd (df_columns df ! j)"
    using len by (metis map_nth)
  finally show ?thesis
    using Some m by (simp add: csv_column_def to_csv_def)
qed

lemma csv_rows_index:
  assumes "df_well_formed df"
  shows "map fst (csv_rows (to_csv df)) = [0..<length (df_index df)]"
proof -
  have "map fst (csv_rows (to_csv df)) = map (\<lambda>i. df_index df ! i) [0..<length (df_index df)]"
    by (simp add: to_csv_def comp_def)
  also have "\<dots> = df_index df" by (rule map_nth)
  finally show ?thesis using assms by (simp add: df_well_formed_def)
qed

lemma update_column_lengths:
  assumes "\<forall>kc \<in> set cols. length (snd kc) = n" "length vs = n"
  shows "\<forall>kc \<in> set (update_column k vs cols). length (snd kc) = n"
  using assms by (induction cols) auto

lemma map_of_update_column: "map_of (update_column k v cols) = (map_of cols)(k \<mapsto> v)"
  by (induction cols) (auto simp: fun_eq_iff)

lemma new_dataframe_ok:
  assumes "length a1 = n" "length a2 = n"
  shows "new_dataframe k1 a1 k2 a2 = Inr \<lparr>df_index = [0..<n], df_columns = [(k1, a1), (k2, a2)]\<rparr>"
  using assms by (simp add: new_dataframe_def)

lemma set_column_ok:
  assumes "length vs = length (df_index df)"
  shows "set_column df k vs = Inr (df\<lparr>df_columns := update_column k vs (df_columns df)\<rparr>)"
  using assms by (simp add: set_column_def)

lemma velocity_loop_eq:
  "velocity_loop np labels zs acc =
     \<lparr>mean_velocities = mean_velocities acc
        @ map (\<lambda>z. Val (nanmean np (map velocities [row \<leftarrow> labels. in_window np z (angles row)]))) zs,
      median_velocities = median_velocities acc
        @ map (\<lambda>z. Val (nanmedian np (map velocities [row \<leftarrow> labels. in_window np z (angles row)]))) zs,
      std_velocities = std_velocities acc
        @ map (\<lambda>z. Val (nanstd np (map velocities [row \<leftarrow> labels. in_window np z (angles row)]))) zs,
      min_velocities = min_velocities acc
        @ map (\<lambda>z. if [row \<leftarrow> labels. in_window np z (angles row)] = [] then IntCell (- 1)
                    else Val (nanmin np (map velocities [row \<leftarrow> labels. in_window np z (angles row)]))) zs,
      max_velocities = max_velocities acc
        @ map (\<lambda>z. if [row \<leftarrow> labels. in_window np z (angles row)] = [] then IntCell (- 1)
                    else Val (nanmax np (map velocities [row \<leftarrow> labels. in_window np z (angles row)]))) zs\<rparr>"
proof (induction zs arbitrary: acc)
  case Nil
  show ?case by simp
next
  case (Cons z zs)
  show ?case
    by (cases "[row \<leftarrow> labels. in_window np z (angles row)] = []")
      (simp_all add: Cons.IH Let_def)
qed


lemma velocity_loop_lengths:
  "length (mean_velocities (velocity_loop np labels zs acc)) = length (mean_velocities acc) + length zs"
  "length (median_velocities (velocity_loop np labels zs acc)) = length (median_velocities acc) + length zs"
  "length (std_velocities (velocity_loop np labels zs acc)) = length (std_velocities acc) + length zs"
  "length (min_velocities (velocity_loop np labels zs acc)) = length (min_velocities acc) + length zs"
  "length (max_velocities (velocity_loop np labels zs acc)) = length (max_velocities acc) + length zs"
  by (simp_all add: velocity_loop_eq)

lemma learned_profile_grid1:
  assumes "dn \<in> set [''s1_synthetic'', ''three_place_cells_synthetic'']"
    and "length gd = length zs" "length cn = length zs"
  shows "curv_norm_learned_profile np dn labels (Grid1 zs) gd cn =
     Inr \<lparr>df_index = [0..<length zs],
          df_columns = [(''geodesic_dist'', map Val gd), (''curv_norm_learned'', map Val cn),
                        (''z_grid'', map Val zs)]\<rparr>"
  using assms
  by (auto simp add: curv_norm_learned_profile_def new_dataframe_def set_z_grid_def set_column_def)

lemma learned_profile_grid2:
  assumes "dn \<in> set [''s2_synthetic'', ''t2_synthetic'', ''grid_cells'']"
    and "length gd = length ps" "length cn = length ps"
  shows "curv_norm_learned_profile np dn labels (Grid2 ps) gd cn =
     Inr \<lparr>df_index = [0..<length ps],
          df_columns = [(''geodesic_dist'', map Val gd), (''curv_norm_learned'', map Val cn),
                        (''z_grid_theta'', map (\<lambda>p. Val (fst p)) ps),
                        (''z_grid_phi'', map (\<lambda>p. Val (snd p)) ps)]\<rparr>"
  using assms
  by (auto simp add: curv_norm_learned_profile_def new_dataframe_def set_z_grid_theta_phi_def
      set_column_def)

lemma learned_profile_experimental:
  assumes "length gd = length zs" "length cn = length zs"
  shows "curv_norm_learned_profile np ''experimental'' labels (Grid1 zs) gd cn =
     Inr \<lparr>df_index = [0..<length zs],
          df_columns =
            (let cols = velocity_loop np labels zs
                   \<lparr>mean_velocities = [], median_velocities = [], std_velocities = [],
                    min_velocities = [], max_velocities = []\<rparr>
             in [(''geodesic_dist'', map Val gd), (''curv_norm_learned'', map Val cn),
                 (''z_grid'', map Val zs),
                 (''mean_velocities'', mean_velocities cols),
                 (''median_velocities'', median_velocities cols),
                 (''std_velocities'', std_velocities cols),
                 (''min_velocities'', min_velocities cols),
                 (''max_velocities'', max_velocities cols)])\<rparr>"
  using assms
  by (simp add: curv_norm_learned_profile_def new_dataframe_def set_z_grid_def set_column_def
      set_velocity_columns_def Let_def velocity_loop_lengths)

lemma true_profile_grid1:
  assumes "length gd = length zs" "length cn = length zs"
  shows "curv_norm_true_profile ''s1_synthetic'' (Grid1 zs) gd cn =
     Inr \<lparr>df_index = [0..<length zs],
          df_columns = [(''geodesic_dist'', map Val gd), (''curv_norm_true'', map Val cn),
                        (''z_grid'', map Val zs)]\<rparr>"
  using assms
  by (simp add: curv_norm_true_profile_def new_dataframe_def set_z_grid_def set_column_def)

lemma true_profile_grid2:
  assumes "dn \<in> set [''s2_synthetic'', ''t2_synthetic'']"
    and "length gd = length ps" "length cn = length ps"
  shows "curv_norm_true_profile dn (Grid2 ps) gd cn =
     Inr \<lparr>df_index = [0..<length ps],
          df_columns = [(''geodesic_dist'', map Val gd), (''curv_norm_true'', map Val cn),
                        (''z_grid_theta'', map (\<lambda>p. Val (fst p)) ps),
                        (''z_grid_phi'', map (\<lambda>p. Val (snd p)) ps)]\<rparr>"
  using assms
  by (auto simp add: curv_norm_true_profile_def new_dataframe_def set_z_grid_theta_phi_def
      set_column_def)

lemma is_profile_csv_to_csv:
  assumes "df_well_formed df" "length (df_index df) = grid_length z"
    and "map_of (df_columns df) ''geodesic_dist'' = Some (map Val gd)"
    and "map_of (df_columns df) curv_name = Some (map Val cn)"
    and "\<forall>kc \<in> set (grid_columns z). map_of (df_columns df) (fst kc) = Some (snd kc)"
  shows "is_profile_csv (to_csv df) curv_name (z, gd, cn)"
  using assms
  by (simp add: is_profile_csv_def csv_column_to_csv csv_rows_index)

lemma learned_profile_csv:
  assumes "curvature_result_ok dn (z, gd, cn)"
  shows "\<exists>df. curv_norm_learned_profile np dn labels z gd cn = Inr df
           \<and> is_profile_csv (to_csv df) ''curv_norm_learned'' (z, gd, cn)"
proof (cases z)
  case (Grid1 zs)
  with assms have len: "length gd = length zs" "length cn = length zs"
    and dn: "dn \<in> set [''s1_synthetic'', ''experimental'', ''three_place_cells_synthetic'']"
    by (simp_all add: curvature_result_ok_def grid_length_def grid_matches_def)
  show ?thesis
  proof (cases "dn = ''experimental''")
    case True
    let ?df = "\<lparr>df_index = [0..<length zs],
          df_columns =
            (let cols = velocity_loop np labels zs
                   \<lparr>mean_velocities = [], median_velocities = [], std_velocities = [],
                    min_velocities = [], max_velocities = []\<rparr>
             in [(''geodesic_dist'', map Val gd), (''curv_norm_learned'', map Val cn),
                 (''z_grid'', map Val zs),
                 (''mean_velocities'', mean_velocities cols),
                 (''median_velocities'', median_velocities cols),
                 (''std_velocities'', std_velocities cols),
                 (''min_velocities'', min_velocities cols),
                 (''max_velocities'', max_velocities cols)])\<rparr>"
    have "is_profile_csv (to_csv ?df) ''curv_norm_learned'' (Grid1 zs, gd, cn)"
    proof (rule is_profile_csv_to_csv)
      show "df_well_formed ?df"
        by (simp add: df_well_formed_def Let_def velocity_loop_lengths len)
      show "length (df_index ?df) = grid_length (Grid1 zs)" by (simp add: grid_length_def)
      show "map_of (df_columns ?df) ''geodesic_dist'' = Some (map Val gd)"
        by (simp add: Let_def)
      show "map_of (df_columns ?df) ''curv_norm_learned'' = Some (map Val cn)"
        by (simp add: Let_def)
      show "\<forall>kc \<in> set (grid_columns (Grid1 zs)). map_of (df_columns ?df) (fst kc) = Some (snd kc)"
        by (simp add: grid_columns_def Let_def)
    qed
    then show ?thesis
      unfolding True Grid1 learned_profile_experimental [OF len] by blast
  next
    case False
    with dn have dn': "dn \<in> set [''s1_synthetic'', ''three_place_cells_synthetic'']" by simp
    let ?df = "\<lparr>df_index = [0..<length zs],
          df_columns = [(''geodesic_dist'', map Val gd), (''curv_norm_learned'', map Val cn),
                        (''z_grid'', map Val zs)]\<rparr>"
    have "is_profile_csv (to_csv ?df) ''curv_norm_learned'' (Grid1 zs, gd, cn)"
    proof (rule is_profile_csv_to_csv)
      show "df_well_formed ?df" by (simp add: df_well_formed_def len)
      show "length (df_index ?df) = grid_length (Grid1 zs)" by (simp add: grid_length_def)
      show "map_of (df_columns ?df) ''geodesic_dist'' = Some (map Val gd)" by simp
      show "map_of (df_columns ?df) ''curv_norm_learned'' = Some (map Val cn)" by simp
      show "\<forall>kc \<in> set (grid_columns (Grid1 zs)). map_of (df_columns ?df) (fst kc) = Some (snd kc)"
        by (simp add: grid_columns_def)
    qed
    then show ?thesis
      unfolding Grid1 learned_profile_grid1 [OF dn' len] by blast
  qed
next
  case (Grid2 ps)
  with assms have len: "length gd = length ps" "length cn = length ps"
    and dn: "dn \<in> set [''s2_synthetic'', ''t2_synthetic'', ''grid_cells'']"
    by (simp_all add: curvature_result_ok_def grid_length_def grid_matches_def)
  let ?df = "\<lparr>df_index = [0..<length ps],
          df_columns = [(''geodesic_dist'', map Val gd), (''curv_norm_learned'', map Val cn),
                        (''z_grid_theta'', map (\<lambda>p. Val (fst p)) ps),
                        (''z_grid_phi'', map (\<lambda>p. Val (snd p)) ps)]\<rparr>"
  have "is_profile_csv (to_csv ?df) ''curv_norm_learned'' (Grid2 ps, gd, cn)"
  proof (rule is_profile_csv_to_csv)
    show "df_well_formed ?df" by (simp add: df_well_formed_def len)
    show "length (df_index ?df) = grid_length (Grid2 ps)" by (simp add: grid_length_def)
    show "map_of (df_columns ?df) ''geodesic_dist'' = Some (map Val gd)" by simp
    show "map_of (df_columns ?df) ''curv_norm_learned'' = Some (map Val cn)" by simp
    show "\<forall>kc \<in> set (grid_columns (Grid2 ps)). map_of (df_columns ?df) (fst kc) = Some (snd kc)"
      by (simp add: grid_columns_def)
  qed
  then show ?thesis
    unfolding Grid2 learned_profile_grid2 [OF dn len] by blast
qed

lemma true_profile_csv:
  assumes "curvature_result_ok dn (z, gd, cn)"
    and "dn \<in> set [''s1_synthetic'', ''s2_synthetic'', ''t2_synthetic'']"
  shows "\<exists>df. curv_norm_true_profile dn z gd cn = Inr df
           \<and> is_profile_csv (to_csv df) ''curv_norm_true'' (z, gd, cn)"
proof (cases z)
  case (Grid1 zs)
  with assms have len: "length gd = length zs" "length cn = length zs"
    and dn: "dn = ''s1_synthetic''"
    by (auto simp add: curvature_result_ok_def grid_length_def grid_matches_def)
  let ?df = "\<lparr>df_index = [0..<length zs],
          df_columns = [(''geodesic_dist'', map Val gd), (''curv_norm_true'', map Val cn),
                        (''z_grid'', map Val zs)]\<rparr>"
  have "is_profile_csv (to_csv ?df) ''curv_norm_true'' (Grid1 zs, gd, cn)"
  proof (rule is_profile_csv_to_csv)
    show "df_well_formed ?df" by (simp add: df_well_formed_def len)
    show "length (df_index ?df) = grid_length (Grid1 zs)" by (simp add: grid_length_def)
    show "map_of (df_columns ?df) ''geodesic_dist'' = Some (map Val gd)" by simp
    show "map_of (df_columns ?df) ''curv_norm_true'' = Some (map Val cn)" by simp
    show "\<forall>kc \<in> set (grid_columns (Grid1 zs)). map_of (df_columns ?df) (fst kc) = Some (snd kc)"
      by (simp add: grid_columns_def)
  qed
  then show ?thesis
    unfolding Grid1 dn true_profile_grid1 [OF len] by blast
next
  case (Grid2 ps)
  with assms have len: "length gd = length ps" "length cn = length ps"
    and dn: "dn \<in> set [''s2_synthetic'', ''t2_synthetic'']"
    by (auto simp add: curvature_result_ok_def grid_length_def grid_matches_def)
  let ?df = "\<lparr>df_index = [0..<length ps],
          df_columns = [(''geodesic_dist'', map Val gd), (''curv_norm_true'', map Val cn),
                        (''z_grid_theta'', map (\<lambda>p. Val (fst p)) ps),
                        (''z_grid_phi'', map (\<lambda>p. Val (snd p)) ps)]\<rparr>"
  have "is_profile_csv (to_csv ?df) ''curv_norm_true'' (Grid2 ps, gd, cn)"
  proof (rule is_profile_csv_to_csv)
    show "df_well_formed ?df" by (simp add: df_well_formed_def len)
    show "length (df_index ?df) = grid_length (Grid2 ps)" by (simp add: grid_length_def)
    show "map_of (df_columns ?df) ''geodesic_dist'' = Some (map Val gd)" by simp
    show "map_of (df_columns ?df) ''curv_norm_true'' = Some (map Val cn)" by simp
    show "\<forall>kc \<in> set (grid_columns (Grid2 ps)). map_of (df_columns ?df) (fst kc) = Some (snd kc)"
      by (simp add: grid_columns_def)
  qed
  then show ?thesis
    unfolding Grid2 true_profile_grid2 [OF dn len] by blast
qed

text \<open>
  Claim C6. When the dataset has two axes and the evaluation routine returns as many
  distances and norms as grid points, on a grid of the shape of the dataset (a vector
  for \<open>s1_synthetic\<close>, \<open>experimental\<close> and \<open>three_place_cells_synthetic\<close>, two columns for
  \<open>s2_synthetic\<close>, \<open>t2_synthetic\<close> and \<open>grid_cells\<close>), \<open>curvature_compute_plot_log\<close> writes
  the learned profile as a CSV file with one row per grid point, led by its index, whose
  columns include \<open>geodesic_dist\<close>, \<open>curv_norm_learned\<close> and the grid coordinates
  (\<open>z_grid\<close>, or \<open>z_grid_theta\<close> and \<open>z_grid_phi\<close>). For the three synthetic datasets,
  when the true norms are well formed too and not empty, it writes a second file of the
  same form with \<open>curv_norm_true\<close>; for the other datasets it writes the first file only.
\<close>

theorem curvature_profiles_persisted:
  fixes config :: "('f, 'z) run_config_scheme"
  assumes sh: "shape dataset_t = n0 # ed # rest"
    and learned: "curvature_result_ok (cfg_dataset_name config)
        (compute_curvature_learned ev model config ed (n_grid_points config))"
    and true: "cfg_dataset_name config \<in> set [''s1_synthetic'', ''s2_synthetic'', ''t2_synthetic'']
        \<Longrightarrow> curvature_result_ok (cfg_dataset_name config)
              (compute_curvature_true ev config (n_grid_points config))
            \<and> snd (snd (compute_curvature_true ev config (n_grid_points config))) \<noteq> []"
  shows "\<exists>f. is_profile_csv f ''curv_norm_learned''
               (compute_curvature_learned ev model config ed (n_grid_points config))
     \<and> (if cfg_dataset_name config \<in> set [''s1_synthetic'', ''s2_synthetic'', ''t2_synthetic'']
        then \<exists>ft. is_profile_csv ft ''curv_norm_true''
                     (compute_curvature_true ev config (n_grid_points config))
               \<and> curvature_compute_plot_log np ev dir config dataset_t labels model =
                   ([(curv_norm_learned_profile_path dir config, f),
                     (curv_norm_true_profile_path dir config, ft)], None)
        else curvature_compute_plot_log np ev dir config dataset_t labels model =
               ([(curv_norm_learned_profile_path dir config, f)], None))"
proof -
  obtain z gd cn where l: "compute_curvature_learned ev model config ed (n_grid_points config)
      = (z, gd, cn)"
    by (cases "compute_curvature_learned ev model config ed (n_grid_points config)") auto
  from learned_profile_csv [OF learned [unfolded l]]
  obtain df where df: "curv_norm_learned_profile np (cfg_dataset_name config) labels z gd cn = Inr df"
    and csv: "is_profile_csv (to_csv df) ''curv_norm_learned'' (z, gd, cn)"
    by blast
  show ?thesis
  proof (cases "cfg_dataset_name config \<in> set [''s1_synthetic'', ''s2_synthetic'', ''t2_synthetic'']")
    case False
    then have "curvature_compute_plot_log np ev dir config dataset_t labels model =
               ([(curv_norm_learned_profile_path dir config, to_csv df)], None)"
      by (simp add: curvature_compute_plot_log_def sh l df)
    with csv False show ?thesis unfolding l by (intro exI [of _ "to_csv df"]) simp
  next
    case True
    obtain zt gdt cnt where t: "compute_curvature_true ev config (n_grid_points config)
        = (zt, gdt, cnt)"
      by (cases "compute_curvature_true ev config (n_grid_points config)") auto
    from true [OF True] t have ok: "curvature_result_ok (cfg_dataset_name config) (zt, gdt, cnt)"
      and ne: "cnt \<noteq> []" by simp_all
    from true_profile_csv [OF ok True]
    obtain dft where dft: "curv_norm_true_profile (cfg_dataset_name config) zt gdt cnt = Inr dft"
      and csvt: "is_profile_csv (to_csv dft) ''curv_norm_true'' (zt, gdt, cnt)"
      by blast
    have "curvature_compute_plot_log np ev dir config dataset_t labels model =
                   ([(curv_norm_learned_profile_path dir config, to_csv df),
                     (curv_norm_true_profile_path dir config, to_csv dft)], None)"
      using True ne by (simp add: curvature_compute_plot_log_def sh l df t dft)
    with csv csvt True show ?thesis
      unfolding l t by (intro exI [of _ "to_csv df"]) auto
  qed
qed


text \<open>
  The theorem at a run on \<open>s1_synthetic\<close> with a grid of two points.
\<close>

theorem curvature_profiles_persisted_witness:
  "\<exists>f. is_profile_csv f ''curv_norm_learned'' (Grid1 [0, 1], [0, 3], [5, 6 :: int])
     \<and> (\<exists>ft. is_profile_csv ft ''curv_norm_true'' (Grid1 [0, 1], [0, 3], [5, 5 :: int])
            \<and> curvature_compute_plot_log example_numpy example_evaluate ''profiles''
                 (main_run_config ''k3x9a2bq'' (500, 40) example_synthetic_config)
                 example_dataset example_labels () =
               ([(''profiles/run_k3x9a2bq_s1_synthetic_noise_var_5_embedding_dim_3_curv_norm_learned_profile.csv'', f),
                 (''profiles/run_k3x9a2bq_s1_synthetic_noise_var_5_embedding_dim_3_curv_norm_true_profile.csv'', ft)],
                None))"
proof -
  let ?config = "main_run_config ''k3x9a2bq'' (500, 40) example_synthetic_config"
  have dn: "cfg_dataset_name ?config = ''s1_synthetic''"
    by (simp add: main_run_config_def example_synthetic_config_def Let_def sweep_config.defs)
  have sh: "shape example_dataset = 500 # 40 # []" by (simp add: example_dataset_def)
  have l: "curvature_result_ok (cfg_dataset_name ?config)
      (compute_curvature_learned example_evaluate () ?config 40 (n_grid_points ?config))"
    unfolding dn
    by (simp add: example_evaluate_def curvature_result_ok_def grid_length_def grid_matches_def)
  have t: "curvature_result_ok (cfg_dataset_name ?config)
        (compute_curvature_true example_evaluate ?config (n_grid_points ?config))
      \<and> snd (snd (compute_curvature_true example_evaluate ?config (n_grid_points ?config))) \<noteq> []"
    unfolding dn
    by (simp add: example_evaluate_def curvature_result_ok_def grid_length_def grid_matches_def)
  have lp: "curv_norm_learned_profile_path ''profiles'' ?config =
      ''profiles/run_k3x9a2bq_s1_synthetic_noise_var_5_embedding_dim_3_curv_norm_learned_profile.csv''"
    by (simp add: curv_norm_learned_profile_path_def main_run_config_names make_run_name_def
        example_synthetic_config_def os_path_join_def)
  have tp: "curv_norm_true_profile_path ''profiles'' ?config =
      ''profiles/run_k3x9a2bq_s1_synthetic_noise_var_5_embedding_dim_3_curv_norm_true_profile.csv''"
    by (simp add: curv_norm_true_profile_path_def main_run_config_names make_run_name_def
        example_synthetic_config_def os_path_join_def)
  have le: "compute_curvature_learned example_evaluate () ?config 40 (n_grid_points ?config)
      = (Grid1 [0, 1], [0, 3], [5, 6])"
    by (simp add: example_evaluate_def)
  have te: "compute_curvature_true example_evaluate ?config (n_grid_points ?config)
      = (Grid1 [0, 1], [0, 3], [5, 5])"
    by (simp add: example_evaluate_def)
  have d: "cfg_dataset_name ?config \<in> set [''s1_synthetic'', ''s2_synthetic'', ''t2_synthetic'']"
    unfolding dn by simp
  from curvature_profiles_persisted [OF sh l t, of example_numpy "''profiles''" example_labels]
  show ?thesis
    unfolding le te lp tp if_P [OF d] .
qed

lemma csv_cell_to_csv:
  assumes "df_well_formed df" "map_of (df_columns df) k = Some col" "i < length col"
  shows "csv_cell (to_csv df) k i = Some (col ! i)"
  using assms by (simp add: csv_cell_def csv_column_to_csv)

text \<open>
  Claim C10. On the \<open>experimental\<close> dataset, at a grid point whose window selects no
  label, the written profile holds the integer \<open>-1\<close> in the columns \<open>min_velocities\<close>
  and \<open>max_velocities\<close>, and in \<open>mean_velocities\<close>, \<open>median_velocities\<close> and
  \<open>std_velocities\<close> what \<open>nanmean\<close>, \<open>nanmedian\<close> and \<open>nanstd\<close> return on the empty
  selection.
\<close>

theorem empty_window_velocity_sentinels:
  fixes config :: "('f, 'z) run_config_scheme"
  assumes sh: "shape dataset_t = n0 # ed # rest"
    and dn: "cfg_dataset_name config = ''experimental''"
    and l: "compute_curvature_learned ev model config ed (n_grid_points config) = (Grid1 zs, gd, cn)"
    and len: "length gd = length zs" "length cn = length zs"
    and i: "i < length zs"
    and empty: "[row \<leftarrow> labels. in_window np (zs ! i) (angles row)] = []"
  shows "\<exists>f. curvature_compute_plot_log np ev dir config dataset_t labels model =
             ([(curv_norm_learned_profile_path dir config, f)], None)
     \<and> csv_cell f ''min_velocities'' i = Some (IntCell (- 1))
     \<and> csv_cell f ''max_velocities'' i = Some (IntCell (- 1))
     \<and> csv_cell f ''mean_velocities'' i = Some (Val (nanmean np []))
     \<and> csv_cell f ''median_velocities'' i = Some (Val (nanmedian np []))
     \<and> csv_cell f ''std_velocities'' i = Some (Val (nanstd np []))"
proof -
  define cols where "cols = velocity_loop np labels zs
                   \<lparr>mean_velocities = [], median_velocities = [], std_velocities = [],
                    min_velocities = [], max_velocities = []\<rparr>"
  define df where "df = \<lparr>df_index = [0..<length zs],
          df_columns =
             [(''geodesic_dist'', map Val gd), (''curv_norm_learned'', map Val cn),
                 (''z_grid'', map Val zs),
                 (''mean_velocities'', mean_velocities cols),
                 (''median_velocities'', median_velocities cols),
                 (''std_velocities'', std_velocities cols),
                 (''min_velocities'', min_velocities cols),
                 (''max_velocities'', max_velocities cols)]\<rparr>"
  have p: "curv_norm_learned_profile np ''experimental'' labels (Grid1 zs) gd cn = Inr df"
    unfolding learned_profile_experimental [OF len] df_def cols_def by (simp add: Let_def)
  have r: "curvature_compute_plot_log np ev dir config dataset_t labels model =
             ([(curv_norm_learned_profile_path dir config, to_csv df)], None)"
    by (simp add: curvature_compute_plot_log_def sh l dn p)
  have lens: "length (mean_velocities cols) = length zs"
    "length (median_velocities cols) = length zs" "length (std_velocities cols) = length zs"
    "length (min_velocities cols) = length zs" "length (max_velocities cols) = length zs"
    by (simp_all add: cols_def velocity_loop_lengths)
  have wf: "df_well_formed df"
    by (simp add: df_def df_well_formed_def lens len)
  have c1: "csv_cell (to_csv df) ''min_velocities'' i = Some (min_velocities cols ! i)"
    by (rule csv_cell_to_csv [OF wf]) (simp_all add: df_def lens i)
  have c2: "csv_cell (to_csv df) ''max_velocities'' i = Some (max_velocities cols ! i)"
    by (rule csv_cell_to_csv [OF wf]) (simp_all add: df_def lens i)
  have c3: "csv_cell (to_csv df) ''mean_velocities'' i = Some (mean_velocities cols ! i)"
    by (rule csv_cell_to_csv [OF wf]) (simp_all add: df_def lens i)
  have c4: "csv_cell (to_csv df) ''median_velocities'' i = Some (median_velocities cols ! i)"
    by (rule csv_cell_to_csv [OF wf]) (simp_all add: df_def lens i)
  have c5: "csv_cell (to_csv df) ''std_velocities'' i = Some (std_velocities cols ! i)"
    by (rule csv_cell_to_csv [OF wf]) (simp_all add: df_def lens i)
  have v: "min_velocities cols ! i = IntCell (- 1)" "max_velocities cols ! i = IntCell (- 1)"
    "mean_velocities cols ! i = Val (nanmean np [])"
    "median_velocities cols ! i = Val (nanmedian np [])"
    "std_velocities cols ! i = Val (nanstd np [])"
    using i empty by (simp_all add: cols_def velocity_loop_eq)
  show ?thesis
    unfolding r using c1 c2 c3 c4 c5 v by (intro exI [of _ "to_csv df"]) simp
qed

text \<open>
  The theorem at a grid of two points and one label at angle 0: the window of the second
  grid point is empty.
\<close>

theorem empty_window_velocity_sentinels_witness:
  "\<exists>f. curvature_compute_plot_log example_numpy example_evaluate ''profiles''
          (main_run_config ''k3x9a2bq'' (500, 40) example_sweep_config)
          example_dataset example_labels () =
        ([(''profiles/run_k3x9a2bq_experimental_34_gain_1_curv_norm_learned_profile.csv'', f)],
         None)
     \<and> csv_cell f ''min_velocities'' 1 = Some (IntCell (- 1))
     \<and> csv_cell f ''max_velocities'' 1 = Some (IntCell (- 1))
     \<and> csv_cell f ''mean_velocities'' 1 = Some (Val 0)
     \<and> csv_cell f ''median_velocities'' 1 = Some (Val 0)
     \<and> csv_cell f ''std_velocities'' 1 = Some (Val 0)"
proof -
  let ?config = "main_run_config ''k3x9a2bq'' (500, 40) example_sweep_config"
  have dn: "cfg_dataset_name ?config = ''experimental''"
    by (simp add: main_run_config_def example_sweep_config_def Let_def sweep_config.defs)
  have sh: "shape example_dataset = 500 # 40 # []" by (simp add: example_dataset_def)
  have l: "compute_curvature_learned example_evaluate () ?config 40 (n_grid_points ?config)
      = (Grid1 [0, 1], [0, 3], [5, 6])"
    by (simp add: example_evaluate_def)
  have len: "length [0, 3 :: int] = length [0, 1 :: int]" "length [5, 6 :: int] = length [0, 1 :: int]"
    by simp_all
  have i: "1 < length [0, 1 :: int]" by simp
  have e: "[row \<leftarrow> example_labels. in_window example_numpy ([0, 1] ! 1) (angles row)] = []"
    by (simp add: example_labels_def example_numpy_def)
  have lp: "curv_norm_learned_profile_path ''profiles'' ?config =
      ''profiles/run_k3x9a2bq_experimental_34_gain_1_curv_norm_learned_profile.csv''"
    by (simp add: curv_norm_learned_profile_path_def main_run_config_names make_run_name_def
        example_sweep_config_def os_path_join_def)
  have n: "nanmean example_numpy [] = 0" "nanmedian example_numpy [] = 0"
    "nanstd example_numpy [] = 0"
    by (simp_all add: example_numpy_def)
  from empty_window_velocity_sentinels [OF sh dn l len i e, of "''profiles''"]
  show ?thesis unfolding lp n .
qed

section \<open>Dimension estimation and PLS/PCA evaluation\<close>

lemma refits_fit: "refits L nm (fit L m nm) k = refits L nm m (Suc k)"
  using funpow_swap1 [of "\<lambda>e. fit L e nm" k m] by (simp add: refits_def)

lemma trial_loop_from:
  assumes "di < length est" "length (est ! di) = n" "a \<le> n"
  shows "trial_loop L nm di [a..<n] (m, est) =
     (refits L nm m (n - a),
      est[di := take a (est ! di)
                @ map (\<lambda>k. mean_dimension L (refits L nm m (Suc (k - a)))) [a..<n]])"
  using assms
proof (induction "n - a" arbitrary: a m est)
  case 0
  then have "a = n" by simp
  then show ?case using 0 by (simp add: refits_def)
next
  case (Suc x)
  then have an: "a < n" by simp
  define m' where "m' = fit L m nm"
  define row where "row = est ! di"
  define est' where "est' = est[di := row[a := mean_dimension L m']]"
  have up: "[a..<n] = a # [Suc a..<n]" using an by (simp add: upt_conv_Cons)
  have step: "trial_loop L nm di [a..<n] (m, est) = trial_loop L nm di [Suc a..<n] (m', est')"
    unfolding up by (simp add: Let_def m'_def est'_def row_def)
  have x: "x = n - Suc a" using Suc.hyps(2) by simp
  have d': "di < length est'" using Suc.prems(1) by (simp add: est'_def)
  have r': "est' ! di = row[a := mean_dimension L m']"
    using Suc.prems(1) by (simp add: est'_def)
  have l': "length (est' ! di) = n" using Suc.prems(2) by (simp add: r' row_def)
  have a': "Suc a \<le> n" using an by simp
  have rl: "length row = n" using Suc.prems(2) by (simp add: row_def)
  have tk: "take (Suc a) (row[a := mean_dimension L m']) = take a row @ [mean_dimension L m']"
    using an rl by (simp add: take_Suc_conv_app_nth)
  have mp: "map (\<lambda>k. mean_dimension L (refits L nm m' (Suc (k - Suc a)))) [Suc a..<n]
      = map (\<lambda>k. mean_dimension L (refits L nm m (Suc (k - a)))) [Suc a..<n]"
  proof (rule map_cong [OF refl])
    fix k assume "k \<in> set [Suc a..<n]"
    then have "Suc (k - Suc a) = k - a" by auto
    then show "mean_dimension L (refits L nm m' (Suc (k - Suc a)))
        = mean_dimension L (refits L nm m (Suc (k - a)))"
      by (simp add: m'_def refits_fit)
  qed
  have hd: "mean_dimension L m' = mean_dimension L (refits L nm m (Suc (a - a)))"
    by (simp add: m'_def refits_def)
  have fin: "refits L nm m' (n - Suc a) = refits L nm m (n - a)"
    using an by (simp add: m'_def refits_fit Suc_diff_Suc)
  show ?case
    unfolding step Suc.hyps(1) [OF x d' l' a'] r' tk mp fin
    unfolding up
    by (simp add: est'_def hd row_def)
qed

lemma trial_loop_upt:
  assumes "di < length est" "length (est ! di) = n"
  shows "trial_loop L nm di [0..<n] (m, est) = (refits L nm m n, est[di := trial_row L nm m n])"
  using trial_loop_from [OF assms, of 0 L nm m] by (simp add: trial_row_def)

lemma length_trial_row: "length (trial_row L nm m n) = n"
  by (simp add: trial_row_def)

lemma dim_loop_rows:
  assumes "a + length ds \<le> length est" "\<forall>row \<in> set est. length row = nat (num_trials A)"
  shows "dim_loop L pg A (zip [a..<a + length ds] ds) (g, m, est) =
     (case dim_rows L pg A ds (g, m) of
        (rows, g', m') \<Rightarrow> (g', m', take a est @ rows @ drop (a + length ds) est))"
  using assms
proof (induction ds arbitrary: a g m est)
  case Nil
  show ?case by simp
next
  case (Cons d ds)
  obtain pts g1 where p: "pg g d (num_points A) = (pts, g1)"
    by (cases "pg g d (num_points A)") auto
  obtain nm g2 where s: "synthetic_neural_manifold L g1 pts (num_neurons A) (poisson_multiplier A)
             (ref_frequency A) = (nm, g2)"
    by (cases "synthetic_neural_manifold L g1 pts (num_neurons A) (poisson_multiplier A)
             (ref_frequency A)") auto
  define n where "n = nat (num_trials A)"
  define est1 where "est1 = est[a := trial_row L nm m n]"
  have al: "a < length est" using Cons.prems(1) by simp
  then have "est ! a \<in> set est" by simp
  with Cons.prems(2) have rl: "length (est ! a) = n" by (simp add: n_def)
  have t: "trial_loop L nm a [0..<n] (m, est) = (refits L nm m n, est1)"
    unfolding est1_def by (rule trial_loop_upt [OF al rl])
  have "[a..<a + length (d # ds)] = a # [Suc a..<Suc a + length ds]"
    by (subst upt_rec) simp
  then have z: "zip [a..<a + length (d # ds)] (d # ds) = (a, d) # zip [Suc a..<Suc a + length ds] ds"
    by (simp only: zip_Cons_Cons)
  have step: "dim_loop L pg A (zip [a..<a + length (d # ds)] (d # ds)) (g, m, est) =
      dim_loop L pg A (zip [Suc a..<Suc a + length ds] ds) (g2, refits L nm m n, est1)"
    unfolding z using t by (simp add: p s n_def)
  have l1: "Suc a + length ds \<le> length est1" using Cons.prems(1) by (simp add: est1_def)
  have r1: "\<forall>row \<in> set est1. length row = nat (num_trials A)"
  proof
    fix row assume "row \<in> set est1"
    then have "row \<in> insert (trial_row L nm m n) (set est)"
      unfolding est1_def using set_update_subset_insert by fastforce
    with Cons.prems(2) show "length row = nat (num_trials A)"
      by (auto simp: length_trial_row n_def)
  qed
  have tk: "take (Suc a) est1 = take a est @ [trial_row L nm m n]"
    using al by (simp add: est1_def take_Suc_conv_app_nth)
  have dr: "drop (Suc a + length ds) est1 = drop (a + length (d # ds)) est"
    by (simp add: est1_def)
  show ?case
    unfolding step Cons.IH [OF l1 r1] tk dr
    by (simp add: p s n_def split: prod.splits)
qed


lemma dim_rows_shape:
  "length (fst (dim_rows L pg A ds (g, m))) = length ds
   \<and> (\<forall>row \<in> set (fst (dim_rows L pg A ds (g, m))). length row = nat (num_trials A))"
proof (induction ds arbitrary: g m)
  case Nil
  show ?case by simp
next
  case (Cons d ds)
  obtain pts g1 where p: "pg g d (num_points A) = (pts, g1)"
    by (cases "pg g d (num_points A)") auto
  obtain nm g2 where s: "synthetic_neural_manifold L g1 pts (num_neurons A) (poisson_multiplier A)
             (ref_frequency A) = (nm, g2)"
    by (cases "synthetic_neural_manifold L g1 pts (num_neurons A) (poisson_multiplier A)
             (ref_frequency A)") auto
  obtain rows g' m' where d: "dim_rows L pg A ds (g2, refits L nm m (nat (num_trials A)))
      = (rows, g', m')"
    by (cases "dim_rows L pg A ds (g2, refits L nm m (nat (num_trials A)))") auto
  from Cons.IH [of g2 "refits L nm m (nat (num_trials A))"] show ?case
    by (simp add: p s d length_trial_row)
qed

lemma dim_rows_same_data:
  assumes "i < length ds"
  shows "\<exists>g0 m0 points g1 neural_manifold g2.
      pg g0 (ds ! i) (num_points A) = (points, g1)
    \<and> synthetic_neural_manifold L g1 points (num_neurons A) (poisson_multiplier A)
          (ref_frequency A) = (neural_manifold, g2)
    \<and> fst (dim_rows L pg A ds (g, m)) ! i = trial_row L neural_manifold m0 (nat (num_trials A))"
  using assms
proof (induction ds arbitrary: i g m)
  case Nil
  then show ?case by simp
next
  case (Cons d ds)
  obtain pts g1 where p: "pg g d (num_points A) = (pts, g1)"
    by (cases "pg g d (num_points A)") auto
  obtain nm g2 where s: "synthetic_neural_manifold L g1 pts (num_neurons A) (poisson_multiplier A)
             (ref_frequency A) = (nm, g2)"
    by (cases "synthetic_neural_manifold L g1 pts (num_neurons A) (poisson_multiplier A)
             (ref_frequency A)") auto
  have rows: "fst (dim_rows L pg A (d # ds) (g, m)) =
      trial_row L nm m (nat (num_trials A))
        # fst (dim_rows L pg A ds (g2, refits L nm m (nat (num_trials A))))"
    by (simp add: p s split: prod.splits)
  show ?case
  proof (cases i)
    case 0
    with p s rows have "pg g ((d # ds) ! i) (num_points A) = (pts, g1)
      \<and> synthetic_neural_manifold L g1 pts (num_neurons A) (poisson_multiplier A)
          (ref_frequency A) = (nm, g2)
      \<and> fst (dim_rows L pg A (d # ds) (g, m)) ! i = trial_row L nm m (nat (num_trials A))"
      by simp
    then show ?thesis by blast
  next
    case (Suc j)
    with Cons.prems have "j < length ds" by simp
    from Cons.IH [OF this, of g2 "refits L nm m (nat (num_trials A))"] Suc rows
    show ?thesis by simp
  qed
qed

lemma method_loop_step:
  assumes "get_estimator L name = Some method" "0 \<le> num_trials A"
  shows "method_loop L pg A dims (name # rest) (g, idm) =
     (case dim_rows L pg A dims (g, method) of
        (rows, g', method') \<Rightarrow> method_loop L pg A dims rest (g', idm(name \<mapsto> rows)))"
proof -
  define est where "est = replicate (length dims) (replicate (nat (num_trials A)) (0 :: 'e))"
  have l: "0 + length dims \<le> length est" by (simp add: est_def)
  have r: "\<forall>row \<in> set est. length row = nat (num_trials A)" by (auto simp: est_def)
  have "dim_loop L pg A (enumerate_from0 dims) (g, method, est) =
     (case dim_rows L pg A dims (g, method) of
        (rows, g', m') \<Rightarrow> (g', m', rows))"
    using dim_loop_rows [OF l r, of L pg g "method"]
    by (simp add: enumerate_from0_def est_def split: prod.splits)
  then show ?thesis
    using assms by (simp add: est_def Let_def split: prod.splits)
qed

lemma method_loop_result:
  assumes "method_loop L pg A dims ms (g, idm) = Inr (g', idm')"
  shows "dom idm' = dom idm \<union> set ms
    \<and> (\<forall>name \<in> set ms. \<exists>g0 m0. idm' name = Some (fst (dim_rows L pg A dims (g0, m0))))
    \<and> (\<forall>name. name \<notin> set ms \<longrightarrow> idm' name = idm name)"
  using assms
proof (induction ms arbitrary: g idm)
  case Nil
  then show ?case by simp
next
  case (Cons name ms)
  from Cons.prems obtain mth where e: "get_estimator L name = Some mth"
    by (cases "get_estimator L name") auto
  from Cons.prems e have nt: "0 \<le> num_trials A"
    by (cases "num_trials A < 0") auto
  obtain rows g1 m1 where d: "dim_rows L pg A dims (g, mth) = (rows, g1, m1)"
    by (cases "dim_rows L pg A dims (g, mth)") auto
  from Cons.prems have rest: "method_loop L pg A dims ms (g1, idm(name \<mapsto> rows)) = Inr (g', idm')"
    unfolding method_loop_step [OF e nt] d by simp
  note ih = Cons.IH [OF rest]
  have rows': "rows = fst (dim_rows L pg A dims (g, mth))" by (simp add: d)
  have "\<exists>g0 m0. idm' n = Some (fst (dim_rows L pg A dims (g0, m0)))"
    if "n \<in> set (name # ms)" for n
  proof (cases "n \<in> set ms")
    case True
    with ih show ?thesis by blast
  next
    case False
    with that have "n = name" by simp
    with False ih have "idm' n = Some rows" by simp
    with rows' show ?thesis by blast
  qed
  moreover have "dom idm' = dom idm \<union> set (name # ms)" using ih by auto
  moreover have "idm' n = idm n" if "n \<notin> set (name # ms)" for n
    using ih that by simp
  ultimately show ?case by blast
qed

lemma method_loop_returns:
  assumes "\<forall>name \<in> set ms. get_estimator L name \<noteq> None" "0 \<le> num_trials A"
  shows "\<exists>res. method_loop L pg A dims ms (g, idm) = Inr res"
  using assms(1)
proof (induction ms arbitrary: g idm)
  case Nil
  show ?case by simp
next
  case (Cons name ms)
  then obtain mth where e: "get_estimator L name = Some mth" by auto
  obtain rows g1 m1 where d: "dim_rows L pg A dims (g, mth) = (rows, g1, m1)"
    by (cases "dim_rows L pg A dims (g, mth)") auto
  from Cons.prems have "\<forall>name \<in> set ms. get_estimator L name \<noteq> None" by simp
  from Cons.IH [OF this, of g1 "idm(name \<mapsto> rows)"]
  obtain res where r: "method_loop L pg A dims ms (g1, idm(name \<mapsto> rows)) = Inr res"
    by blast
  have "method_loop L pg A dims (name # ms) (g, idm) = Inr res"
    unfolding method_loop_step [OF e assms(2)] d using r by simp
  then show ?case by blast
qed

lemma pls_loop_eq:
  "pls_loop S X split Ks (r2_scores, projected_X) =
     (r2_scores @ map (pls_score S split) Ks, projected_X @ map (pls_projection S X split) Ks)"
proof (induction Ks arbitrary: r2_scores projected_X)
  case Nil
  show ?case by (cases split) simp
next
  case (Cons K Ks)
  obtain X_train X_test Y_train Y_test where sp: "split = (X_train, X_test, Y_train, Y_test)"
    by (cases split) auto
  show ?case
    unfolding sp by (simp add: Let_def Cons.IH [unfolded sp] pls_score_def pls_projection_def)
qed

lemma pca_loop_eq:
  "pca_loop S X split Ks (r2_scores, projected_X) =
     (r2_scores @ map (pca_score S split) Ks, projected_X @ map (pca_projection S X split) Ks)"
proof (induction Ks arbitrary: r2_scores projected_X)
  case Nil
  show ?case by (cases split) simp
next
  case (Cons K Ks)
  obtain X_train X_test Y_train Y_test where sp: "split = (X_train, X_test, Y_train, Y_test)"
    by (cases split) auto
  show ?case
    unfolding sp by (simp add: Let_def Cons.IH [unfolded sp] pca_score_def pca_projection_def)
qed


lemma method_loop_eq:
  assumes "\<forall>name \<in> set ms. get_estimator L name \<noteq> None" "0 \<le> num_trials A"
  shows "\<exists>g'. method_loop L pg A dims ms (g, idm) =
           Inr (g', idm ++ map_of (rev (method_rows L pg A dims ms g)))"
  using assms(1)
proof (induction ms arbitrary: g idm)
  case Nil
  show ?case by simp
next
  case (Cons name ms)
  then obtain mth where e: "get_estimator L name = Some mth" by auto
  obtain rows g1 m1 where d: "dim_rows L pg A dims (g, mth) = (rows, g1, m1)"
    by (cases "dim_rows L pg A dims (g, mth)") auto
  from Cons.prems have "\<forall>name \<in> set ms. get_estimator L name \<noteq> None" by simp
  from Cons.IH [OF this, of g1 "idm(name \<mapsto> rows)"]
  obtain g' where r: "method_loop L pg A dims ms (g1, idm(name \<mapsto> rows)) =
      Inr (g', idm(name \<mapsto> rows) ++ map_of (rev (method_rows L pg A dims ms g1)))"
    by blast
  have mr: "method_rows L pg A dims (name # ms) g = (name, rows) # method_rows L pg A dims ms g1"
    by (simp add: e d)
  have "idm ++ map_of (rev (method_rows L pg A dims (name # ms) g))
      = idm(name \<mapsto> rows) ++ map_of (rev (method_rows L pg A dims ms g1))"
    unfolding mr by (simp add: map_add_upd_left fun_eq_iff map_add_def split: option.splits)
  moreover have "method_loop L pg A dims (name # ms) (g, idm) =
      Inr (g', idm(name \<mapsto> rows) ++ map_of (rev (method_rows L pg A dims ms g1)))"
    unfolding method_loop_step [OF e assms(2)] d using r by simp
  ultimately show ?case by auto
qed

lemma skdim_returns:
  fixes L :: "('e, 'p, 'n, 'g, 'r::{zero,one,times,inverse}) estimation_lib"
  assumes pg: "get_point_generator L manifold_type = Some point_generator"
    and est: "\<forall>name \<in> set (requested_methods L methods). get_estimator L name \<noteq> None"
    and nt: "0 \<le> num_trials A"
    and nz: "ref_frequency A * poisson_multiplier A \<noteq> 0"
  shows "\<exists>g' id_estimates.
      method_loop L point_generator A dimensions (requested_methods L methods) (g, Map.empty)
        = Inr (g', id_estimates)
    \<and> skdim_dimension_estimation L g methods dimensions manifold_type A
        = Inr (id_estimates, np_sqrt L (1 / (ref_frequency A * poisson_multiplier A)))"
proof -
  from method_loop_returns [OF est nt, of point_generator dimensions g Map.empty]
  obtain g' id_estimates where
    m: "method_loop L point_generator A dimensions (requested_methods L methods) (g, Map.empty)
        = Inr (g', id_estimates)"
    by auto
  have "skdim_dimension_estimation L g methods dimensions manifold_type A
        = Inr (id_estimates, np_sqrt L (1 / (ref_frequency A * poisson_multiplier A)))"
    using nz by (simp add: skdim_dimension_estimation_def Let_def pg m)
  with m show ?thesis by blast
qed

text \<open>
  Claim C7. When the manifold type names a point generator, every requested method
  names an estimator, \<open>num_trials\<close> is not negative and
  \<open>ref_frequency * poisson_multiplier\<close> is not zero, \<open>skdim_dimension_estimation\<close> returns
  a dictionary whose keys are the requested method names, each mapped to an array with
  one row per dimension and \<open>num_trials\<close> entries per row, together with the noise level
  \<open>np.sqrt(1 / (ref_frequency * poisson_multiplier))\<close>. The dictionary is the one that
  holds, for each requested method, the rows of its estimates: the entry at row \<open>i\<close> and
  column \<open>k\<close> is the mean dimension the estimator reports after its fit number \<open>k + 1\<close> to
  the neural manifold of the dimension at position \<open>i\<close>.
  \<open>evaluate_pls_with_different_K\<close> and \<open>evaluate_PCA_with_different_K\<close> return the list of
  scores and the list of projected data of the values of \<open>K_values\<close>, one per value and in
  their order.
\<close>

theorem estimation_and_evaluation_results_aggregate:
  fixes L :: "('e, 'p, 'n, 'g, 'r::{zero,one,times,inverse}) estimation_lib"
  assumes pg: "get_point_generator L manifold_type \<noteq> None"
    and est: "\<forall>name \<in> set (requested_methods L methods). get_estimator L name \<noteq> None"
    and nt: "0 \<le> num_trials A"
    and nz: "ref_frequency A * poisson_multiplier A \<noteq> 0"
  shows "(\<exists>point_generator id_estimates.
        get_point_generator L manifold_type = Some point_generator
      \<and> skdim_dimension_estimation L g methods dimensions manifold_type A
          = Inr (id_estimates, np_sqrt L (1 / (ref_frequency A * poisson_multiplier A)))
      \<and> id_estimates =
          map_of (rev (method_rows L point_generator A dimensions
                         (requested_methods L methods) g))
      \<and> dom id_estimates = set (requested_methods L methods)
      \<and> (\<forall>name \<in> set (requested_methods L methods).
            \<exists>estimates. id_estimates name = Some estimates
              \<and> length estimates = length dimensions
              \<and> (\<forall>row \<in> set estimates. length row = nat (num_trials A))
              \<and> (\<forall>i < length dimensions. \<exists>neural_manifold m0.
                    \<forall>k < nat (num_trials A).
                      estimates ! i ! k
                        = mean_dimension L (refits L neural_manifold m0 (Suc k)))))
    \<and> evaluate_pls_with_different_K S X Y K_values =
        (map (pls_score S (train_test_split S X Y)) K_values,
         map (pls_projection S X (train_test_split S X Y)) K_values)
    \<and> evaluate_PCA_with_different_K S X Y K_values =
        (map (pca_score S (train_test_split S X Y)) K_values,
         map (pca_projection S X (train_test_split S X Y)) K_values)"
proof -
  from pg obtain point_generator where p: "get_point_generator L manifold_type = Some point_generator"
    by auto
  from skdim_returns [OF p est nt nz, of dimensions g]
  obtain g' id_estimates where
    m: "method_loop L point_generator A dimensions (requested_methods L methods) (g, Map.empty)
        = Inr (g', id_estimates)"
    and r: "skdim_dimension_estimation L g methods dimensions manifold_type A
        = Inr (id_estimates, np_sqrt L (1 / (ref_frequency A * poisson_multiplier A)))"
    by blast
  from method_loop_eq [OF est nt, of point_generator dimensions g Map.empty] m
  have q: "id_estimates =
      map_of (rev (method_rows L point_generator A dimensions (requested_methods L methods) g))"
    by auto
  note ml = method_loop_result [OF m]
  have d: "dom id_estimates = set (requested_methods L methods)" using ml by simp
  have sh: "\<exists>estimates. id_estimates name = Some estimates
              \<and> length estimates = length dimensions
              \<and> (\<forall>row \<in> set estimates. length row = nat (num_trials A))
              \<and> (\<forall>i < length dimensions. \<exists>neural_manifold m0.
                    \<forall>k < nat (num_trials A).
                      estimates ! i ! k
                        = mean_dimension L (refits L neural_manifold m0 (Suc k)))"
    if "name \<in> set (requested_methods L methods)" for name
  proof -
    from ml that obtain ga ma where
      e: "id_estimates name = Some (fst (dim_rows L point_generator A dimensions (ga, ma)))"
      by blast
    have en: "\<exists>neural_manifold m0. \<forall>k < nat (num_trials A).
            fst (dim_rows L point_generator A dimensions (ga, ma)) ! i ! k
              = mean_dimension L (refits L neural_manifold m0 (Suc k))"
      if "i < length dimensions" for i
    proof -
      from dim_rows_same_data [OF that, of point_generator A L ga ma]
      obtain neural_manifold m0 where
        "fst (dim_rows L point_generator A dimensions (ga, ma)) ! i
           = trial_row L neural_manifold m0 (nat (num_trials A))"
        by blast
      then have "\<forall>k < nat (num_trials A).
            fst (dim_rows L point_generator A dimensions (ga, ma)) ! i ! k
              = mean_dimension L (refits L neural_manifold m0 (Suc k))"
        by (simp add: trial_row_def)
      then show ?thesis by blast
    qed
    from e en dim_rows_shape [of L point_generator A dimensions ga ma] show ?thesis by simp
  qed
  have pls: "evaluate_pls_with_different_K S X Y K_values =
        (map (pls_score S (train_test_split S X Y)) K_values,
         map (pls_projection S X (train_test_split S X Y)) K_values)"
    by (simp add: evaluate_pls_with_different_K_def pls_loop_eq)
  have pca: "evaluate_PCA_with_different_K S X Y K_values =
        (map (pca_score S (train_test_split S X Y)) K_values,
         map (pca_projection S X (train_test_split S X Y)) K_values)"
    by (simp add: evaluate_PCA_with_different_K_def pca_loop_eq)
  from p r q d sh have "\<exists>point_generator id_estimates.
        get_point_generator L manifold_type = Some point_generator
      \<and> skdim_dimension_estimation L g methods dimensions manifold_type A
          = Inr (id_estimates, np_sqrt L (1 / (ref_frequency A * poisson_multiplier A)))
      \<and> id_estimates =
          map_of (rev (method_rows L point_generator A dimensions
                         (requested_methods L methods) g))
      \<and> dom id_estimates = set (requested_methods L methods)
      \<and> (\<forall>name \<in> set (requested_methods L methods).
            \<exists>estimates. id_estimates name = Some estimates
              \<and> length estimates = length dimensions
              \<and> (\<forall>row \<in> set estimates. length row = nat (num_trials A))
              \<and> (\<forall>i < length dimensions. \<exists>neural_manifold m0.
                    \<forall>k < nat (num_trials A).
                      estimates ! i ! k
                        = mean_dimension L (refits L neural_manifold m0 (Suc k))))"
    by (intro exI [of _ point_generator] exI [of _ id_estimates] conjI ballI) auto
  with pls pca show ?thesis by (intro conjI)
qed

text \<open>
  Claim C9. Under the conditions of C7, the row of a requested method at a dimension
  holds the estimates of \<open>num_trials\<close> successive fits of the estimator to one and the
  same neural manifold, which is derived from one point cloud generated for that
  dimension: the data is generated once per method and dimension, outside the trial
  loop.
\<close>

theorem trials_refit_the_same_data:
  fixes L :: "('e, 'p, 'n, 'g, 'r::{zero,one,times,inverse}) estimation_lib"
  assumes pg: "get_point_generator L manifold_type = Some point_generator"
    and est: "\<forall>name \<in> set (requested_methods L methods). get_estimator L name \<noteq> None"
    and nt: "0 \<le> num_trials A"
    and nz: "ref_frequency A * poisson_multiplier A \<noteq> 0"
    and name: "name \<in> set (requested_methods L methods)"
    and i: "i < length dimensions"
  shows "\<exists>id_estimates noise_level estimates g0 m0 points g1 neural_manifold g2.
        skdim_dimension_estimation L g methods dimensions manifold_type A
          = Inr (id_estimates, noise_level)
      \<and> id_estimates name = Some estimates
      \<and> point_generator g0 (dimensions ! i) (num_points A) = (points, g1)
      \<and> synthetic_neural_manifold L g1 points (num_neurons A) (poisson_multiplier A)
          (ref_frequency A) = (neural_manifold, g2)
      \<and> estimates ! i =
          map (\<lambda>k. mean_dimension L (refits L neural_manifold m0 (Suc k)))
            [0..<nat (num_trials A)]"
proof -
  from skdim_returns [OF pg est nt nz, of dimensions g]
  obtain g' id_estimates where
    m: "method_loop L point_generator A dimensions (requested_methods L methods) (g, Map.empty)
        = Inr (g', id_estimates)"
    and r: "skdim_dimension_estimation L g methods dimensions manifold_type A
        = Inr (id_estimates, np_sqrt L (1 / (ref_frequency A * poisson_multiplier A)))"
    by blast
  from method_loop_result [OF m] name obtain ga ma where
    e: "id_estimates name = Some (fst (dim_rows L point_generator A dimensions (ga, ma)))"
    by blast
  from dim_rows_same_data [OF i, of point_generator A L ga ma]
  obtain g0 m0 points g1 neural_manifold g2 where
    "point_generator g0 (dimensions ! i) (num_points A) = (points, g1)"
    "synthetic_neural_manifold L g1 points (num_neurons A) (poisson_multiplier A)
          (ref_frequency A) = (neural_manifold, g2)"
    "fst (dim_rows L point_generator A dimensions (ga, ma)) ! i
       = trial_row L neural_manifold m0 (nat (num_trials A))"
    by blast
  with r e show ?thesis unfolding trial_row_def by blast
qed


lemma example_requested: "requested_methods example_lib AllMethods = [''MLE'', ''TwoNN'']"
  by (simp add: requested_methods_def example_lib_def startswith_underscore_def)

lemma example_method_rows:
  "method_rows example_lib (\<lambda>g dm n. (dm + int g, Suc g)) example_args [1, 2]
     [''MLE'', ''TwoNN''] 0
   = [(''MLE'', [[2, 4, 6], [14, 22, 30]]), (''TwoNN'', [[10, 20, 30], [46, 62, 78]])]"
  by (simp add: example_lib_def example_args_def trial_row_def refits_def
      numeral_3_eq_3 upt_rec)


text \<open>
  The theorem at the stand-in libraries, with all public methods requested, two
  dimensions and three trials, and three values of \<open>K\<close>: the arrays hold the estimates
  of the successive fits.
\<close>

theorem estimation_and_evaluation_results_aggregate_witness:
  "(\<exists>id_estimates.
        skdim_dimension_estimation example_lib 0 AllMethods [1, 2] ''hypersphere'' example_args
          = Inr (id_estimates, sqrt (1 / 200))
      \<and> id_estimates ''MLE'' = Some [[2, 4, 6], [14, 22, 30]]
      \<and> id_estimates ''TwoNN'' = Some [[10, 20, 30], [46, 62, 78]]
      \<and> dom id_estimates = {''MLE'', ''TwoNN''})
    \<and> evaluate_pls_with_different_K example_sklearn [1, 2, 3, 4, 5] [1, 1, 1, 1, 1] [1, 2, 3]
        = ([- 8, - 13, - 18], [[1, 2, 3, 4, 5], [2, 4, 6, 8, 10], [3, 6, 9, 12, 15]])
    \<and> evaluate_PCA_with_different_K example_sklearn [1, 2, 3, 4, 5] [1, 1, 1, 1, 1] [1, 2, 3]
        = ([- 9, - 10, - 11], [[2, 3, 4, 5, 6], [3, 4, 5, 6, 7], [4, 5, 6, 7, 8]])"
proof -
  have pg: "get_point_generator example_lib ''hypersphere'' \<noteq> None"
    by (simp add: example_lib_def)
  have pge: "get_point_generator example_lib ''hypersphere'' = Some (\<lambda>g dm n. (dm + int g, Suc g))"
    by (simp add: example_lib_def)
  have est: "\<forall>name \<in> set (requested_methods example_lib AllMethods).
      get_estimator example_lib name \<noteq> None"
    unfolding example_requested by (simp add: example_lib_def)
  have nt: "0 \<le> num_trials example_args" by (simp add: example_args_def)
  have nz: "ref_frequency example_args * poisson_multiplier example_args \<noteq> 0"
    by (simp add: example_args_def)
  note t = estimation_and_evaluation_results_aggregate [OF pg est nt nz,
      of 0 "[1, 2]" example_sklearn "[1, 2, 3, 4, 5]" "[1, 1, 1, 1, 1]" "[1, 2, 3]"]
  have a: "np_sqrt example_lib (1 / (ref_frequency example_args * poisson_multiplier example_args))
      = sqrt (1 / 200)"
    by (simp add: example_lib_def example_args_def)
  have sp: "train_test_split example_sklearn [1, 2, 3, 4, 5] [1, 1, 1, 1, 1]
      = ([1, 2, 3, 4], [5], [1, 1, 1, 1], [1])"
    by (simp add: example_sklearn_def)
  have pls: "(map (pls_score example_sklearn ([1, 2, 3, 4], [5], [1, 1, 1, 1], [1])) [1, 2, 3],
         map (pls_projection example_sklearn [1, 2, 3, 4, 5] ([1, 2, 3, 4], [5], [1, 1, 1, 1], [1]))
           [1, 2, 3])
       = ([- 8, - 13, - 18], [[1, 2, 3, 4, 5], [2, 4, 6, 8, 10], [3, 6, 9, 12, 15]])"
    by (simp add: pls_score_def pls_projection_def example_sklearn_def)
  have pca: "(map (pca_score example_sklearn ([1, 2, 3, 4], [5], [1, 1, 1, 1], [1])) [1, 2, 3],
         map (pca_projection example_sklearn [1, 2, 3, 4, 5] ([1, 2, 3, 4], [5], [1, 1, 1, 1], [1]))
           [1, 2, 3])
       = ([- 9, - 10, - 11], [[2, 3, 4, 5, 6], [3, 4, 5, 6, 7], [4, 5, 6, 7, 8]])"
    by (simp add: pca_score_def pca_projection_def example_sklearn_def)
  from t [THEN conjunct1] obtain id_estimates where
    r: "skdim_dimension_estimation example_lib 0 AllMethods [1, 2] ''hypersphere'' example_args
          = Inr (id_estimates, sqrt (1 / 200))"
    and q: "id_estimates =
          map_of (rev (method_rows example_lib (\<lambda>g dm n. (dm + int g, Suc g)) example_args
                         [1, 2] [''MLE'', ''TwoNN''] 0))"
    and d: "dom id_estimates = {''MLE'', ''TwoNN''}"
    unfolding a pge example_requested by auto
  from q have v: "id_estimates ''MLE'' = Some [[2, 4, 6], [14, 22, 30]]"
    "id_estimates ''TwoNN'' = Some [[10, 20, 30], [46, 62, 78]]"
    unfolding example_method_rows by simp_all
  from t [THEN conjunct2] have e: "evaluate_pls_with_different_K example_sklearn [1, 2, 3, 4, 5] [1, 1, 1, 1, 1] [1, 2, 3]
        = ([- 8, - 13, - 18], [[1, 2, 3, 4, 5], [2, 4, 6, 8, 10], [3, 6, 9, 12, 15]])
    \<and> evaluate_PCA_with_different_K example_sklearn [1, 2, 3, 4, 5] [1, 1, 1, 1, 1] [1, 2, 3]
        = ([- 9, - 10, - 11], [[2, 3, 4, 5, 6], [3, 4, 5, 6, 7], [4, 5, 6, 7, 8]])"
    unfolding sp pls pca .
  from r v d e show ?thesis by blast
qed

text \<open>
  The theorem at the stand-in library, for the method \<open>TwoNN\<close> and the second dimension.
\<close>

theorem trials_refit_the_same_data_witness:
  "\<exists>id_estimates noise_level estimates g0 m0 points g1 neural_manifold g2.
        skdim_dimension_estimation example_lib 0 AllMethods [1, 2] ''hypersphere'' example_args
          = Inr (id_estimates, noise_level)
      \<and> id_estimates ''TwoNN'' = Some estimates
      \<and> (g0 + 2, Suc g0) = (points, g1)
      \<and> (2 * points, Suc g1) = (neural_manifold, g2)
      \<and> estimates ! 1 =
          map (\<lambda>k. mean_dimension example_lib (refits example_lib neural_manifold m0 (Suc k)))
            [0..<3]"
proof -
  have pg: "get_point_generator example_lib ''hypersphere'' = Some (\<lambda>g dm n. (dm + int g, Suc g))"
    by (simp add: example_lib_def)
  have est: "\<forall>name \<in> set (requested_methods example_lib AllMethods).
      get_estimator example_lib name \<noteq> None"
    unfolding example_requested by (simp add: example_lib_def)
  have nt: "0 \<le> num_trials example_args" by (simp add: example_args_def)
  have nz: "ref_frequency example_args * poisson_multiplier example_args \<noteq> 0"
    by (simp add: example_args_def)
  have name: "''TwoNN'' \<in> set (requested_methods example_lib AllMethods)"
    unfolding example_requested by simp
  have i: "1 < length [1, 2 :: int]" by simp
  have n: "nat (num_trials example_args) = 3" by (simp add: example_args_def)
  have s: "synthetic_neural_manifold example_lib = (\<lambda>g points n pm rf. (2 * points, Suc g))"
    by (simp add: example_lib_def)
  from trials_refit_the_same_data [OF pg est nt nz name i, of 0]
  show ?thesis unfolding n s by (simp add: add.commute)
qed

end
